theory Spec2Isabelle
  imports Complex_Main "HOL-Library.Product_Lexorder"
begin

section \<open>Order book builder of the exchange pipeline\<close>

text \<open>
  The development embeds \<^verbatim>\<open>src/exchange/orderbook.py\<close> (class LadderBuilder) and
  \<^verbatim>\<open>src/exchange/metadata.py\<close> (class MetadataBuilder).

  Conventions of the embedding.
  \<^item> JSON numbers (prices, sizes, volumes) are read as the exact rationals they denote;
    binary floating-point error is outside the model.
  \<^item> A Python dict whose iteration order is observable is an association list with
    pairwise distinct keys, in insertion order.
  \<^item> A key that may be missing from a JSON object is an \<open>option\<close> field.
  \<^item> Every exception the code can raise is a value \<open>Inl e\<close> of a sum type.
  \<^item> A \<^verbatim>\<open>pd.Timestamp\<close> obtained from an integer \<^verbatim>\<open>pt\<close> is represented by that
    integer number of milliseconds.
\<close>

subsection \<open>Python dictionaries and exceptions\<close>

datatype py_error = KeyError | IndexError | AssertionError | ValueError

type_synonym ('k, 'v) pydict = "('k \<times> 'v) list"

text \<open>\<^verbatim>\<open>d[k] = v\<close>: an existing key keeps its position, a new key goes last.\<close>

fun dict_set :: "'k \<Rightarrow> 'v \<Rightarrow> ('k, 'v) pydict \<Rightarrow> ('k, 'v) pydict" where
  "dict_set k v [] = [(k, v)]"
| "dict_set k v ((k', v') # d) = (if k' = k then (k', v) # d else (k', v') # dict_set k v d)"

text \<open>\<^verbatim>\<open>d.get(k)\<close>.\<close>

definition dict_get :: "('k, 'v) pydict \<Rightarrow> 'k \<Rightarrow> 'v option" where
  "dict_get d k = map_of d k"

text \<open>\<^verbatim>\<open>d.update(u)\<close>: the items of \<open>u\<close> are stored one after the other.\<close>

definition dict_update :: "('k, 'v) pydict \<Rightarrow> ('k, 'v) pydict \<Rightarrow> ('k, 'v) pydict" where
  "dict_update d u = fold (\<lambda>(k, v) acc. dict_set k v acc) u d"

subsection \<open>Data model\<close>

type_synonym ladder = "(rat, rat) pydict"

text \<open>A trade \<^verbatim>\<open>[price, volume, side]\<close>.\<close>

type_synonym trade = "rat \<times> rat \<times> string"

text \<open>\<^verbatim>\<open>blp\<close> is a price or \<^verbatim>\<open>float("inf")\<close>.\<close>

datatype lay_price = Price rat | Infinity

text \<open>One entry of \<^verbatim>\<open>mc[0]["rc"]\<close>.\<close>

record runner_change =
  rc_id :: int
  rc_atb :: "(rat \<times> rat) list option"
  rc_atl :: "(rat \<times> rat) list option"
  rc_trd :: "(rat \<times> rat) list option"
  rc_ltp :: "rat option"
  rc_tv :: "rat option"

text \<open>The per-runner dictionary built by \<^verbatim>\<open>create_ladder_ds\<close>.\<close>

record runner_ladder =
  atb :: ladder
  atl :: ladder
  trd :: ladder
  trades :: "trade list"
  ltp :: "rat option"
  tv :: "rat option"
  ttrdv :: rat
  bbp :: rat
  blp :: lay_price

datatype price_key = Atb_key | Atl_key | Trd_key

datatype value_key = Ltp_key | Tv_key

text \<open>
  \<^verbatim>\<open>self.current_ladder\<close>: runner id to runner dictionary. The code keys it by
  \<^verbatim>\<open>str(id)\<close>; \<^verbatim>\<open>str\<close> is injective on integers, so the model keys it by the integer.
\<close>

type_synonym current_ladder = "(int, runner_ladder) pydict"

text \<open>The dictionary \<^verbatim>\<open>format_ladder\<close> emits for one runner: only truthy fields are present.\<close>

record formatted_runner =
  f_atb :: "(rat \<times> rat) list option"
  f_atl :: "(rat \<times> rat) list option"
  f_trd :: "(rat, rat) pydict option"
  f_ltp :: "rat option"
  f_tv :: "rat option"
  f_ttrdv :: "rat option"
  f_trades :: "trade list option"

subsection \<open>LadderBuilder: ladder sides\<close>

text \<open>\<^verbatim>\<open>{item[0]: item[1] for item in ladder}\<close>.\<close>

definition list_ladder_to_dict :: "(rat \<times> rat) list \<Rightarrow> ladder" where
  "list_ladder_to_dict l = fold (\<lambda>(k, v) acc. dict_set k v acc) l []"

text \<open>\<^verbatim>\<open>runner_ladder[price_key]\<close> and \<^verbatim>\<open>runner_change.get(price_key)\<close>.\<close>

definition ladder_side :: "runner_ladder \<Rightarrow> price_key \<Rightarrow> ladder" where
  "ladder_side rl price_key = (case price_key of Atb_key \<Rightarrow> atb rl | Atl_key \<Rightarrow> atl rl | Trd_key \<Rightarrow> trd rl)"

definition change_side :: "runner_change \<Rightarrow> price_key \<Rightarrow> (rat \<times> rat) list option" where
  "change_side c price_key =
     (case price_key of Atb_key \<Rightarrow> rc_atb c | Atl_key \<Rightarrow> rc_atl c | Trd_key \<Rightarrow> rc_trd c)"

text \<open>
  \<^verbatim>\<open>update_runner_ladder\<close>. A missing key of the runner change is read as the empty
  list. \<^verbatim>\<open>sorted\<close> compares the items as tuples, \<^verbatim>\<open>reverse=True\<close> reverses the order.
\<close>

definition update_runner_ladder :: "runner_ladder \<Rightarrow> runner_change \<Rightarrow> price_key \<Rightarrow> ladder" where
  "update_runner_ladder rl c price_key =
     (let lad = ladder_side rl price_key;
          update_list = (case change_side c price_key of None \<Rightarrow> [] | Some l \<Rightarrow> l);
          update_dict = list_ladder_to_dict update_list;
          merged = dict_update lad update_dict;
          kept = filter (\<lambda>(key, val). val > 0) merged
      in case price_key of
           Atb_key \<Rightarrow> take 10 (rev (sort kept))
         | Atl_key \<Rightarrow> take 10 (sort kept)
         | Trd_key \<Rightarrow> sort kept)"

subsection \<open>LadderBuilder: scalar fields\<close>

text \<open>
  \<^verbatim>\<open>update_runner_value\<close>: \<^verbatim>\<open>value = runner_change.get(key)\<close>, then
  \<^verbatim>\<open>value if value else runner_ladder[key]\<close>. A number is truthy when it is not zero.
\<close>

definition update_runner_value :: "runner_ladder \<Rightarrow> runner_change \<Rightarrow> value_key \<Rightarrow> rat option" where
  "update_runner_value rl c key =
     (let val = (case key of Ltp_key \<Rightarrow> rc_ltp c | Tv_key \<Rightarrow> rc_tv c);
          stored = (case key of Ltp_key \<Rightarrow> ltp rl | Tv_key \<Rightarrow> tv rl)
      in case val of
           None \<Rightarrow> stored
         | Some v \<Rightarrow> if v \<noteq> 0 then Some v else stored)"

subsection \<open>LadderBuilder: trades\<close>

text \<open>\<^verbatim>\<open>round(x, 2)\<close> on exact values: the nearest hundredth, a tie going to the even one.\<close>

definition round2 :: "rat \<Rightarrow> rat" where
  "round2 x =
     (let y = x * 100; f = \<lfloor>y\<rfloor>; d = y - of_int f
      in of_int (if d < 1 / 2 then f else if 1 / 2 < d then f + 1 else if even f then f else f + 1) / 100)"

text \<open>\<^verbatim>\<open>traded_price >= runner_ladder["blp"]\<close>, where \<^verbatim>\<open>blp\<close> may be infinite.\<close>

fun price_ge :: "rat \<Rightarrow> lay_price \<Rightarrow> bool" where
  "price_ge p (Price q) = (q \<le> p)"
| "price_ge p Infinity = False"

text \<open>\<^verbatim>\<open>best_back_price > best_lay_price\<close>.\<close>

fun price_gt :: "rat \<Rightarrow> lay_price \<Rightarrow> bool" where
  "price_gt p (Price q) = (q < p)"
| "price_gt p Infinity = False"

text \<open>
  The loop of \<^verbatim>\<open>update_runner_trades\<close>. \<^verbatim>\<open>current_trd\<close> is read once before the loop;
  the loop appends to \<^verbatim>\<open>trades\<close> (here \<open>new_trades\<close>) and adds to \<^verbatim>\<open>runner_ladder["ttrdv"]\<close> in place.
\<close>

fun trades_loop :: "ladder \<Rightarrow> (rat \<times> rat) list \<Rightarrow> trade list \<Rightarrow> runner_ladder \<Rightarrow> trade list \<times> runner_ladder" where
  "trades_loop current_trd [] new_trades rl = (new_trades, rl)"
| "trades_loop current_trd ((traded_price, total_volume) # rest) new_trades rl =
     (let traded_volume =
            round2 (total_volume - (case dict_get current_trd traded_price of None \<Rightarrow> 0 | Some v \<Rightarrow> v))
      in if traded_volume \<le> 0 then trades_loop current_trd rest new_trades rl
         else
           let rl' = rl\<lparr>ttrdv := ttrdv rl + traded_volume\<rparr>
           in if traded_price \<le> bbp rl'
              then trades_loop current_trd rest (new_trades @ [(traded_price, traded_volume, ''b'')]) rl'
              else if price_ge traded_price (blp rl')
              then trades_loop current_trd rest (new_trades @ [(traded_price, traded_volume, ''l'')]) rl'
              else trades_loop current_trd rest (new_trades @ [(traded_price, traded_volume, ''nan'')]) rl')"

text \<open>\<^verbatim>\<open>update_runner_trades\<close> returns the trades; the runner dictionary is returned as mutated.\<close>

definition update_runner_trades :: "runner_ladder \<Rightarrow> runner_change \<Rightarrow> trade list \<times> runner_ladder" where
  "update_runner_trades rl c =
     trades_loop (trd rl) (case rc_trd c of None \<Rightarrow> [] | Some l \<Rightarrow> l) [] rl"

subsection \<open>LadderBuilder: applying a packet's runner changes\<close>

text \<open>The body of the loop of \<^verbatim>\<open>update_ladder\<close>, after the lookup of the runner.\<close>

definition update_runner :: "runner_ladder \<Rightarrow> runner_change \<Rightarrow> runner_ladder" where
  "update_runner rl c =
     (let (new_trades, rl0) = update_runner_trades rl c;
          rl1 = rl0\<lparr>trades := new_trades\<rparr>;
          rl2 = rl1\<lparr>atb := update_runner_ladder rl1 c Atb_key\<rparr>;
          rl3 = rl2\<lparr>atl := update_runner_ladder rl2 c Atl_key\<rparr>;
          rl4 = rl3\<lparr>trd := update_runner_ladder rl3 c Trd_key\<rparr>;
          rl5 = rl4\<lparr>ltp := update_runner_value rl4 c Ltp_key\<rparr>
      in rl5\<lparr>tv := update_runner_value rl5 c Tv_key\<rparr>)"

text \<open>
  The loop of \<^verbatim>\<open>update_ladder\<close>: \<^verbatim>\<open>self.current_ladder[runner_id]\<close> raises
  \<^verbatim>\<open>KeyError\<close> for a runner id that is not a key.
\<close>

fun update_ladder_loop :: "current_ladder \<Rightarrow> runner_change list \<Rightarrow> py_error + current_ladder" where
  "update_ladder_loop cl [] = Inr cl"
| "update_ladder_loop cl (c # rest) =
     (case dict_get cl (rc_id c) of
        None \<Rightarrow> Inl KeyError
      | Some rl \<Rightarrow> update_ladder_loop (dict_set (rc_id c) (update_runner rl c) cl) rest)"

subsection \<open>Market changes, market definitions and packets\<close>

text \<open>A runner of \<^verbatim>\<open>marketDefinition["runners"]\<close>; only \<^verbatim>\<open>bsp\<close> may be missing.\<close>

record md_runner =
  r_id :: int
  r_name :: string
  r_status :: string
  r_bsp :: "rat option"

text \<open>
  The keys of a market definition that the code reads. The three dates are strings in
  the input and datetimes after \<^verbatim>\<open>format_metadata\<close>, hence the type parameter.
  \<open>md_other\<close> lists the names of the remaining keys.
\<close>

record 'd market_definition =
  md_eventId :: "string option"
  md_openDate :: "'d option"
  md_marketTime :: "'d option"
  md_suspendTime :: "'d option"
  md_inPlay :: "bool option"
  md_name :: "string option"
  md_marketType :: "string option"
  md_runners :: "md_runner list option"
  md_other :: "string list"

datatype datetime = Datetime int int int int int int int

text \<open>The element \<^verbatim>\<open>mc[0]\<close> of a packet.\<close>

record market_change =
  mc_id :: "string option"
  mc_rc :: "runner_change list option"
  mc_marketDefinition :: "string market_definition option"

text \<open>One decoded line of the file.\<close>

record packet =
  p_pt :: "int option"
  p_mc :: "market_change list option"
  p_clk :: "string option"
  p_op :: "string option"

text \<open>The packet as \<^verbatim>\<open>set_raw_marketdata\<close> leaves it.\<close>

record raw_packet =
  raw_pt :: int
  raw_metadata :: string
  raw_mc :: "market_change list option"

text \<open>The document of \<^verbatim>\<open>create_ts_document\<close>.\<close>

record ts_document =
  doc_pt :: int
  doc_metadata :: string
  doc_runners :: "(int, formatted_runner) pydict"
  doc_marketDefinition :: "datetime market_definition option"

text \<open>\<^verbatim>\<open>update_ladder\<close>: \<^verbatim>\<open>market_change["rc"]\<close> raises \<^verbatim>\<open>KeyError\<close> when the key is missing.\<close>

definition update_ladder :: "current_ladder \<Rightarrow> market_change \<Rightarrow> py_error + current_ladder" where
  "update_ladder cl market_change =
     (case mc_rc market_change of
        None \<Rightarrow> Inl KeyError
      | Some rc \<Rightarrow> update_ladder_loop cl rc)"

subsection \<open>LadderBuilder: roster and initial ladder\<close>

text \<open>\<^verbatim>\<open>get_runner_ids\<close>, from the market definition the builder is constructed with.\<close>

definition get_runner_ids :: "'d market_definition \<Rightarrow> py_error + int list" where
  "get_runner_ids market_definition =
     (case md_runners market_definition of
        None \<Rightarrow> Inl KeyError
      | Some runner_objects \<Rightarrow> Inr (map r_id runner_objects))"

definition default_best_back_price :: rat where
  "default_best_back_price = 0"

definition default_best_lay_price :: lay_price where
  "default_best_lay_price = Infinity"

definition new_runner_ladder :: runner_ladder where
  "new_runner_ladder =
     \<lparr>atb = [], atl = [], trd = [], trades = [], ltp = None, tv = None, ttrdv = 0,
      bbp = default_best_back_price, blp = default_best_lay_price\<rparr>"

text \<open>\<^verbatim>\<open>create_ladder_ds\<close>: one assignment \<^verbatim>\<open>runners[runner_id] = {...}\<close> per roster entry.\<close>

definition create_ladder_ds :: "int list \<Rightarrow> current_ladder" where
  "create_ladder_ds runner_ids = fold (\<lambda>runner_id runners. dict_set runner_id new_runner_ladder runners) runner_ids []"

subsection \<open>LadderBuilder: snapshot formatting\<close>

definition format_runner :: "runner_ladder \<Rightarrow> formatted_runner" where
  "format_runner lad =
     \<lparr>f_atb = (if atb lad \<noteq> [] then Some (atb lad) else None),
      f_atl = (if atl lad \<noteq> [] then Some (atl lad) else None),
      f_trd = (if trd lad \<noteq> [] then Some (trd lad) else None),
      f_ltp = (case ltp lad of None \<Rightarrow> None | Some v \<Rightarrow> if v \<noteq> 0 then Some v else None),
      f_tv = (case tv lad of None \<Rightarrow> None | Some v \<Rightarrow> if v \<noteq> 0 then Some v else None),
      f_ttrdv = (if ttrdv lad \<noteq> 0 then Some (round2 (ttrdv lad)) else None),
      f_trades = (if trades lad \<noteq> [] then Some (trades lad) else None)\<rparr>"

text \<open>
  \<^verbatim>\<open>format_ladder\<close>. The keys of \<^verbatim>\<open>trd\<close> are rendered with \<^verbatim>\<open>str\<close> by the code; the
  model keeps the number the string denotes.
\<close>

definition format_ladder :: "current_ladder \<Rightarrow> (int, formatted_runner) pydict" where
  "format_ladder cl = fold (\<lambda>(runner, lad) output_dict. dict_set runner (format_runner lad) output_dict) cl []"

definition create_ts_document ::
  "string \<Rightarrow> (int, formatted_runner) pydict \<Rightarrow> datetime market_definition option \<Rightarrow> int \<Rightarrow> ts_document" where
  "create_ts_document market_id lad market_definition pt =
     \<lparr>doc_pt = pt, doc_metadata = market_id, doc_runners = lad, doc_marketDefinition = market_definition\<rparr>"

subsection \<open>LadderBuilder: arbitrage check\<close>

text \<open>
  \<^verbatim>\<open>check_arbitrage\<close> receives a runner of the formatted snapshot, where \<^verbatim>\<open>atb\<close> and
  \<^verbatim>\<open>atl\<close> are lists of pairs, and stores the best prices into \<^verbatim>\<open>self.current_ladder\<close>.
\<close>

definition check_arbitrage ::
  "current_ladder \<Rightarrow> formatted_runner \<Rightarrow> int \<Rightarrow> py_error + (bool \<times> current_ladder)" where
  "check_arbitrage cl runner_ladder runner_id =
     (let best_back_price =
            (case f_atb runner_ladder of Some ((p, s) # rest) \<Rightarrow> p | _ \<Rightarrow> default_best_back_price);
          best_lay_price =
            (case f_atl runner_ladder of Some ((p, s) # rest) \<Rightarrow> Price p | _ \<Rightarrow> default_best_lay_price)
      in case dict_get cl runner_id of
           None \<Rightarrow> Inl KeyError
         | Some rl \<Rightarrow>
             Inr (price_gt best_back_price best_lay_price,
                  dict_set runner_id (rl\<lparr>bbp := best_back_price, blp := best_lay_price\<rparr>) cl))"

text \<open>The loop of \<^verbatim>\<open>raise_if_arbitrage\<close>; the body of its \<^verbatim>\<open>if\<close> is \<^verbatim>\<open>pass\<close>.\<close>

fun raise_if_arbitrage_loop ::
  "current_ladder \<Rightarrow> (int, formatted_runner) pydict \<Rightarrow> py_error + current_ladder" where
  "raise_if_arbitrage_loop cl [] = Inr cl"
| "raise_if_arbitrage_loop cl ((runner_id, runner_ladder) # rest) =
     (case check_arbitrage cl runner_ladder runner_id of
        Inl e \<Rightarrow> Inl e
      | Inr (arbitrage, cl') \<Rightarrow> raise_if_arbitrage_loop cl' rest)"

definition raise_if_arbitrage :: "current_ladder \<Rightarrow> ts_document \<Rightarrow> py_error + current_ladder" where
  "raise_if_arbitrage cl lad = raise_if_arbitrage_loop cl (doc_runners lad)"

definition reset_runner_trades :: "current_ladder \<Rightarrow> current_ladder" where
  "reset_runner_trades cl = map (\<lambda>(runner_id, lad). (runner_id, lad\<lparr>trades := []\<rparr>)) cl"

subsection \<open>LadderBuilder: packets\<close>

text \<open>
  \<^verbatim>\<open>process_packet\<close>: \<^verbatim>\<open>packet["pt"]\<close>, \<^verbatim>\<open>packet["mc"]\<close>, \<^verbatim>\<open>mc[0]\<close>, then
  \<^verbatim>\<open>assert len(mc) == 1\<close>.
\<close>

definition process_packet :: "packet \<Rightarrow> py_error + (int \<times> market_change)" where
  "process_packet p =
     (case p_pt p of
        None \<Rightarrow> Inl KeyError
      | Some pt \<Rightarrow>
          (case p_mc p of
             None \<Rightarrow> Inl KeyError
           | Some mc \<Rightarrow>
               (case mc of
                  [] \<Rightarrow> Inl IndexError
                | market_change # others \<Rightarrow>
                    if length mc = 1 then Inr (pt, market_change) else Inl AssertionError)))"

text \<open>\<^verbatim>\<open>set_raw_marketdata\<close>: \<^verbatim>\<open>del packet["clk"]\<close> and \<^verbatim>\<open>del packet["op"]\<close> need the keys.\<close>

definition set_raw_marketdata :: "string \<Rightarrow> packet \<Rightarrow> int \<Rightarrow> py_error + raw_packet" where
  "set_raw_marketdata market_id p pt =
     (case p_clk p of
        None \<Rightarrow> Inl KeyError
      | Some clk \<Rightarrow>
          (case p_op p of
             None \<Rightarrow> Inl KeyError
           | Some op \<Rightarrow> Inr \<lparr>raw_pt = pt, raw_metadata = market_id, raw_mc = p_mc p\<rparr>))"

text \<open>A dict is truthy when it has a key.\<close>

definition md_truthy :: "'d market_definition \<Rightarrow> bool" where
  "md_truthy md \<longleftrightarrow>
     \<not> (md_eventId md = None \<and> md_openDate md = None \<and> md_marketTime md = None \<and>
        md_suspendTime md = None \<and> md_inPlay md = None \<and> md_name md = None \<and>
        md_marketType md = None \<and> md_runners md = None \<and> md_other md = [])"

text \<open>\<^verbatim>\<open>get_in_play_start_pt\<close>: the \<^verbatim>\<open>pt\<close> of the first packet whose definition is in play.\<close>

fun get_in_play_start_pt :: "packet list \<Rightarrow> py_error + int option" where
  "get_in_play_start_pt [] = Inr None"
| "get_in_play_start_pt (p # rest) =
     (case process_packet p of
        Inl e \<Rightarrow> Inl e
      | Inr (pt, market_change) \<Rightarrow>
          (case mc_marketDefinition market_change of
             None \<Rightarrow> get_in_play_start_pt rest
           | Some market_definition \<Rightarrow>
               if md_truthy market_definition
               then (case md_inPlay market_definition of
                       None \<Rightarrow> Inl KeyError
                     | Some in_play \<Rightarrow> if in_play then Inr (Some pt) else get_in_play_start_pt rest)
               else get_in_play_start_pt rest))"

text \<open>\<^verbatim>\<open>get_in_play_end_pt\<close>: \<^verbatim>\<open>self.marketdata[-1]\<close> raises on an empty list.\<close>

definition get_in_play_end_pt :: "packet list \<Rightarrow> py_error + int" where
  "get_in_play_end_pt marketdata =
     (if marketdata = [] then Inl IndexError
      else case process_packet (last marketdata) of
             Inl e \<Rightarrow> Inl e
           | Inr (pt_date, market_change) \<Rightarrow> Inr pt_date)"

subsection \<open>MetadataBuilder: the metadata base\<close>

record winner_info =
  w_name :: string
  w_id :: int
  w_bsp :: "rat option"

record favourite_info =
  fav_name :: string
  fav_id :: int
  fav_bsp :: rat

text \<open>
  The metadata dictionary: the deep copy of \<^verbatim>\<open>mc[0]\<close> without \<^verbatim>\<open>id\<close>, with the keys
  the builder adds. \<open>meta_id\<close> is the key \<^verbatim>\<open>_id\<close>. A key added after \<^verbatim>\<open>format_metadata\<close>
  is \<open>None\<close> while it is missing; \<open>inPlayStartTime = Some None\<close> is the key holding
  Python's \<^verbatim>\<open>None\<close>.
\<close>

record metadata =
  marketId :: string
  meta_id :: string
  eventId :: string
  marketDefinition :: "datetime market_definition"
  meta_rc :: "runner_change list option"
  inPlayStartTime :: "int option option"
  inPlayEndTime :: "int option"
  pre0ladder :: "(int, formatted_runner) pydict option"
  pre5ladder :: "(int, formatted_runner) pydict option"
  pre10ladder :: "(int, formatted_runner) pydict option"
  winnerInfo :: "winner_info option"
  favouriteInfo :: "favourite_info list option"

definition date_format :: string where
  "date_format = ''%Y-%m-%dT%H:%M:%S.%fZ''"

text \<open>
  \<^verbatim>\<open>datetime.strptime(metadata["marketDefinition"][key], "%Y-%m-%dT%H:%M:%S.%fZ")\<close>.
  \<^verbatim>\<open>strptime\<close> belongs to the Python library and is a parameter of the model: it gets the
  string and the format, and \<open>None\<close> stands for its \<^verbatim>\<open>ValueError\<close>.
\<close>

definition parse_date ::
  "(string \<Rightarrow> string \<Rightarrow> datetime option) \<Rightarrow> string option \<Rightarrow> py_error + datetime" where
  "parse_date strptime field =
     (case field of
        None \<Rightarrow> Inl KeyError
      | Some s \<Rightarrow> (case strptime s date_format of None \<Rightarrow> Inl ValueError | Some d \<Rightarrow> Inr d))"

text \<open>\<^verbatim>\<open>format_metadata\<close> returns the metadata base, the market id and the event id.\<close>

definition format_metadata ::
  "(string \<Rightarrow> string \<Rightarrow> datetime option) \<Rightarrow> market_change \<Rightarrow> py_error + (metadata \<times> string \<times> string)" where
  "format_metadata strptime mc =
     (case mc_id mc of
        None \<Rightarrow> Inl KeyError
      | Some market_id \<Rightarrow>
     (case mc_marketDefinition mc of
        None \<Rightarrow> Inl KeyError
      | Some md \<Rightarrow>
     (case md_eventId md of
        None \<Rightarrow> Inl KeyError
      | Some event_id \<Rightarrow>
     (case parse_date strptime (md_openDate md) of
        Inl e \<Rightarrow> Inl e
      | Inr open_date \<Rightarrow>
     (case parse_date strptime (md_marketTime md) of
        Inl e \<Rightarrow> Inl e
      | Inr market_time \<Rightarrow>
     (case parse_date strptime (md_suspendTime md) of
        Inl e \<Rightarrow> Inl e
      | Inr suspend_time \<Rightarrow>
          Inr (\<lparr>marketId = market_id,
                meta_id = ''metadata_'' @ market_id @ ''_'' @ event_id,
                eventId = event_id,
                marketDefinition =
                  \<lparr>md_eventId = md_eventId md, md_openDate = Some open_date,
                   md_marketTime = Some market_time, md_suspendTime = Some suspend_time,
                   md_inPlay = md_inPlay md, md_name = md_name md,
                   md_marketType = md_marketType md, md_runners = md_runners md,
                   md_other = md_other md\<rparr>,
                meta_rc = mc_rc mc,
                inPlayStartTime = None, inPlayEndTime = None,
                pre0ladder = None, pre5ladder = None, pre10ladder = None,
                winnerInfo = None, favouriteInfo = None\<rparr>,
               market_id, event_id)))))))"

text \<open>\<^verbatim>\<open>update_market_definition\<close>: nothing for a missing or empty definition.\<close>

definition update_market_definition ::
  "(string \<Rightarrow> string \<Rightarrow> datetime option) \<Rightarrow> market_change \<Rightarrow> py_error + datetime market_definition option" where
  "update_market_definition strptime market_change =
     (case mc_marketDefinition market_change of
        None \<Rightarrow> Inr None
      | Some md \<Rightarrow>
          if \<not> md_truthy md then Inr None
          else (case format_metadata strptime market_change of
                  Inl e \<Rightarrow> Inl e
                | Inr (meta, market_id, event_id) \<Rightarrow> Inr (Some (marketDefinition meta))))"

subsection \<open>MetadataBuilder: construction and the ladders before in-play\<close>

record metadata_builder =
  mb_in_play_start :: "int option"
  mb_in_play_end :: int
  mb_pre10ladder :: "ts_document option"
  mb_pre5ladder :: "ts_document option"
  mb_pre0ladder :: "ts_document option"
  mb_metadata :: metadata
  mb_market_id :: string
  mb_event_id :: string

text \<open>\<^verbatim>\<open>MetadataBuilder.__init__\<close>: the base comes from \<^verbatim>\<open>self.marketdata[-1]["mc"][0]\<close>.\<close>

definition MetadataBuilder_init ::
  "(string \<Rightarrow> string \<Rightarrow> datetime option) \<Rightarrow> packet list \<Rightarrow> int option \<Rightarrow> int \<Rightarrow> py_error + metadata_builder" where
  "MetadataBuilder_init strptime marketdata in_play_start in_play_end =
     (if marketdata = [] then Inl IndexError
      else case p_mc (last marketdata) of
        None \<Rightarrow> Inl KeyError
      | Some [] \<Rightarrow> Inl IndexError
      | Some (mc # others) \<Rightarrow>
          (case format_metadata strptime mc of
             Inl e \<Rightarrow> Inl e
           | Inr (meta, market_id, event_id) \<Rightarrow>
               Inr \<lparr>mb_in_play_start = in_play_start, mb_in_play_end = in_play_end,
                    mb_pre10ladder = None, mb_pre5ladder = None, mb_pre0ladder = None,
                    mb_metadata = meta\<lparr>inPlayStartTime := Some in_play_start,
                                       inPlayEndTime := Some in_play_end\<rparr>,
                    mb_market_id = market_id, mb_event_id = event_id\<rparr>))"

definition FIVE_MINUTES :: int where
  "FIVE_MINUTES = 5 * 60 * 1000"

definition TEN_MINUTES :: int where
  "TEN_MINUTES = 10 * 60 * 1000"

definition ONE_SECOND :: int where
  "ONE_SECOND = 1000"

text \<open>
  \<^verbatim>\<open>extend_pre_market\<close>. Timestamps are whole milliseconds, so
  \<^verbatim>\<open>(self.in_play_start - pt).total_seconds() * 1000\<close> is their difference. A stored
  document is a non-empty dict, hence truthy; \<^verbatim>\<open>copy.deepcopy\<close> of a value is the value.
\<close>

definition extend_pre_market :: "metadata_builder \<Rightarrow> ts_document \<Rightarrow> int \<Rightarrow> metadata_builder" where
  "extend_pre_market mb ts_ladder_document pt =
     (case mb_in_play_start mb of
        None \<Rightarrow> mb
      | Some in_play_start \<Rightarrow>
          let milliseconds_to_in_play = in_play_start - pt;
              mb0 = (if mb_pre0ladder mb = None \<and> milliseconds_to_in_play < ONE_SECOND
                     then mb\<lparr>mb_pre0ladder := Some ts_ladder_document,
                             mb_metadata := (mb_metadata mb)\<lparr>pre0ladder := Some (doc_runners ts_ladder_document)\<rparr>\<rparr>
                     else mb);
              mb5 = (if mb_pre5ladder mb0 = None \<and> milliseconds_to_in_play < FIVE_MINUTES
                     then mb0\<lparr>mb_pre5ladder := Some ts_ladder_document,
                              mb_metadata := (mb_metadata mb0)\<lparr>pre5ladder := Some (doc_runners ts_ladder_document)\<rparr>\<rparr>
                     else mb0)
          in if mb_pre10ladder mb5 = None \<and> milliseconds_to_in_play < TEN_MINUTES
             then mb5\<lparr>mb_pre10ladder := Some ts_ladder_document,
                      mb_metadata := (mb_metadata mb5)\<lparr>pre10ladder := Some (doc_runners ts_ladder_document)\<rparr>\<rparr>
             else mb5)"

subsection \<open>MetadataBuilder: winner and favourites\<close>

text \<open>\<^verbatim>\<open>xs[i]\<close> for an index that is not negative.\<close>

definition py_index :: "'a list \<Rightarrow> nat \<Rightarrow> py_error + 'a" where
  "py_index xs i = (if i < length xs then Inr (xs ! i) else Inl IndexError)"

text \<open>\<^verbatim>\<open>xs.index(x)\<close> for an \<open>x\<close> that occurs in \<open>xs\<close>.\<close>

fun index_of :: "'a list \<Rightarrow> 'a \<Rightarrow> nat" where
  "index_of [] x = 0"
| "index_of (y # ys) x = (if y = x then 0 else Suc (index_of ys x))"

definition extract_winner_info ::
  "string list \<Rightarrow> int list \<Rightarrow> string list \<Rightarrow> rat list \<Rightarrow> py_error + winner_info option" where
  "extract_winner_info runner_names runner_ids status bsp =
     (if ''WINNER'' \<notin> set status then Inr None
      else
        let winner_index = index_of status ''WINNER''
        in case py_index runner_names winner_index of
             Inl e \<Rightarrow> Inl e
           | Inr winner_name \<Rightarrow>
          (case py_index runner_ids winner_index of
             Inl e \<Rightarrow> Inl e
           | Inr winner_id \<Rightarrow>
               if bsp \<noteq> []
               then (case py_index bsp winner_index of
                       Inl e \<Rightarrow> Inl e
                     | Inr b \<Rightarrow> Inr (Some \<lparr>w_name = winner_name, w_id = winner_id, w_bsp = Some b\<rparr>))
               else Inr (Some \<lparr>w_name = winner_name, w_id = winner_id, w_bsp = None\<rparr>)))"

text \<open>The list comprehension that ends \<^verbatim>\<open>extract_favourite_info\<close>.\<close>

fun favourite_rows :: "string list \<Rightarrow> int list \<Rightarrow> (nat \<times> rat) list \<Rightarrow> py_error + favourite_info list" where
  "favourite_rows runner_names runner_ids [] = Inr []"
| "favourite_rows runner_names runner_ids ((index, b) # rest) =
     (case py_index runner_names index of
        Inl e \<Rightarrow> Inl e
      | Inr n \<Rightarrow>
     (case py_index runner_ids index of
        Inl e \<Rightarrow> Inl e
      | Inr i \<Rightarrow>
     (case favourite_rows runner_names runner_ids rest of
        Inl e \<Rightarrow> Inl e
      | Inr rows \<Rightarrow> Inr (\<lparr>fav_name = n, fav_id = i, fav_bsp = b\<rparr> # rows))))"

text \<open>\<^verbatim>\<open>extract_favourite_info\<close>; \<^verbatim>\<open>list.sort(key=...)\<close> is stable.\<close>

definition extract_favourite_info ::
  "string list \<Rightarrow> int list \<Rightarrow> rat list \<Rightarrow> py_error + favourite_info list option" where
  "extract_favourite_info runner_names runner_ids bsp =
     (if bsp = [] then Inr None
      else
        let bsp_tuples = filter (\<lambda>(index, b). b \<noteq> 0) (enumerate 0 bsp);
            sorted_tuples = sort_key snd bsp_tuples
        in case favourite_rows runner_names runner_ids sorted_tuples of
             Inl e \<Rightarrow> Inl e
           | Inr rows \<Rightarrow> Inr (Some rows))"

text \<open>The list \<^verbatim>\<open>bsps\<close> of \<^verbatim>\<open>extend_post_market\<close>: appended to only for a truthy \<^verbatim>\<open>bsp\<close>.\<close>

fun collect_bsps :: "md_runner list \<Rightarrow> rat list" where
  "collect_bsps [] = []"
| "collect_bsps (runner # rest) =
     (case r_bsp runner of
        None \<Rightarrow> collect_bsps rest
      | Some b \<Rightarrow> if b \<noteq> 0 then b # collect_bsps rest else collect_bsps rest)"

text \<open>
  \<^verbatim>\<open>extend_post_market\<close>, up to the call of the sport's hook \<^verbatim>\<open>_extend_post_market\<close>
  (which adds keys of its own for horse racing and does nothing for football and tennis).
\<close>

definition extend_post_market :: "metadata_builder \<Rightarrow> py_error + metadata_builder" where
  "extend_post_market mb =
     (case md_name (marketDefinition (mb_metadata mb)) of
        None \<Rightarrow> Inl KeyError
      | Some market_name \<Rightarrow>
     (case md_runners (marketDefinition (mb_metadata mb)) of
        None \<Rightarrow> Inl KeyError
      | Some runners \<Rightarrow>
          (let runner_names = map r_name runners;
               runner_ids = map r_id runners;
               status = map r_status runners;
               bsps = collect_bsps runners
           in (case extract_winner_info runner_names runner_ids status bsps of
                 Inl e \<Rightarrow> Inl e
               | Inr winner \<Rightarrow>
                   (let mb1 = (case winner of
                                 None \<Rightarrow> mb
                               | Some w \<Rightarrow> mb\<lparr>mb_metadata := (mb_metadata mb)\<lparr>winnerInfo := Some w\<rparr>\<rparr>)
                    in (case extract_favourite_info runner_names runner_ids bsps of
                          Inl e \<Rightarrow> Inl e
                        | Inr None \<Rightarrow> Inr mb1
                        | Inr (Some favs) \<Rightarrow>
                            (if favs \<noteq> []
                             then Inr (mb1\<lparr>mb_metadata := (mb_metadata mb1)\<lparr>favouriteInfo := Some favs\<rparr>\<rparr>)
                             else Inr mb1)))))))"

subsection \<open>LadderBuilder: construction and the run loop\<close>

record ladder_builder =
  lb_marketdata :: "raw_packet list"
  lb_ladders :: "ts_document list"
  lb_runner_ids :: "int list"
  lb_current_ladder :: current_ladder
  lb_in_play_start :: "int option"
  lb_in_play_end :: int
  lb_metadata_builder :: metadata_builder
  lb_market_id :: string
  lb_event_id :: string

text \<open>
  \<^verbatim>\<open>LadderBuilder.__init__\<close>. \<open>lb_marketdata\<close> holds the packets that \<^verbatim>\<open>run\<close> has
  rewritten so far; the packets still to come are the argument of the loop.
\<close>

definition LadderBuilder_init ::
  "(string \<Rightarrow> string \<Rightarrow> datetime option) \<Rightarrow> packet list \<Rightarrow> string market_definition \<Rightarrow> py_error + ladder_builder" where
  "LadderBuilder_init strptime marketdata market_definition =
     (case get_runner_ids market_definition of
        Inl e \<Rightarrow> Inl e
      | Inr runner_ids \<Rightarrow>
     (case get_in_play_start_pt marketdata of
        Inl e \<Rightarrow> Inl e
      | Inr in_play_start \<Rightarrow>
     (case get_in_play_end_pt marketdata of
        Inl e \<Rightarrow> Inl e
      | Inr in_play_end \<Rightarrow>
     (case MetadataBuilder_init strptime marketdata in_play_start in_play_end of
        Inl e \<Rightarrow> Inl e
      | Inr mb \<Rightarrow>
          Inr \<lparr>lb_marketdata = [], lb_ladders = [], lb_runner_ids = runner_ids,
               lb_current_ladder = create_ladder_ds runner_ids,
               lb_in_play_start = in_play_start, lb_in_play_end = in_play_end,
               lb_metadata_builder = mb,
               lb_market_id = mb_market_id mb, lb_event_id = mb_event_id mb\<rparr>))))"

text \<open>The body of the loop of \<^verbatim>\<open>run\<close>, for one packet.\<close>

definition run_packet ::
  "(string \<Rightarrow> string \<Rightarrow> datetime option) \<Rightarrow> ladder_builder \<Rightarrow> packet \<Rightarrow> py_error + ladder_builder" where
  "run_packet strptime lb p =
     (case process_packet p of
        Inl e \<Rightarrow> Inl e
      | Inr (pt, market_change) \<Rightarrow>
     (case set_raw_marketdata (lb_market_id lb) p pt of
        Inl e \<Rightarrow> Inl e
      | Inr raw \<Rightarrow>
     (case update_ladder (lb_current_ladder lb) market_change of
        Inl e \<Rightarrow> Inl e
      | Inr cl \<Rightarrow>
     (case update_market_definition strptime market_change of
        Inl e \<Rightarrow> Inl e
      | Inr market_definition \<Rightarrow>
          (let formatted_ladder = format_ladder cl;
               ts_ladder_document = create_ts_document (lb_market_id lb) formatted_ladder market_definition pt
           in (case raise_if_arbitrage cl ts_ladder_document of
                 Inl e \<Rightarrow> Inl e
               | Inr cl' \<Rightarrow>
                   Inr (lb\<lparr>lb_marketdata := lb_marketdata lb @ [raw],
                           lb_metadata_builder := extend_pre_market (lb_metadata_builder lb) ts_ladder_document pt,
                           lb_ladders := lb_ladders lb @ [ts_ladder_document],
                           lb_current_ladder := reset_runner_trades cl'\<rparr>)))))))"

text \<open>The loop of \<^verbatim>\<open>run\<close>: an exception ends it.\<close>

fun run_loop ::
  "(string \<Rightarrow> string \<Rightarrow> datetime option) \<Rightarrow> ladder_builder \<Rightarrow> packet list \<Rightarrow> py_error + ladder_builder" where
  "run_loop strptime lb [] = Inr lb"
| "run_loop strptime lb (p # rest) =
     (case run_packet strptime lb p of
        Inl e \<Rightarrow> Inl e
      | Inr lb' \<Rightarrow> run_loop strptime lb' rest)"

text \<open>\<^verbatim>\<open>run\<close>: the loop over all packets, then \<^verbatim>\<open>extend_post_market\<close>.\<close>

definition run ::
  "(string \<Rightarrow> string \<Rightarrow> datetime option) \<Rightarrow> ladder_builder \<Rightarrow> packet list
     \<Rightarrow> py_error + (metadata \<times> ts_document list \<times> raw_packet list)" where
  "run strptime lb marketdata =
     (case run_loop strptime lb marketdata of
        Inl e \<Rightarrow> Inl e
      | Inr lb' \<Rightarrow>
          (case extend_post_market (lb_metadata_builder lb') of
             Inl e \<Rightarrow> Inl e
           | Inr mb \<Rightarrow> Inr (mb_metadata mb, lb_ladders lb', lb_marketdata lb')))"

section \<open>Reference definitions\<close>

text \<open>
  The definitions of this section do not embed code. They state, in the words of the
  specification, what the code is compared with, or name the invariants of the proofs.
\<close>

subsection \<open>Ladder sides as the specification describes them\<close>

text \<open>
  Merging an update list into a side: a price of the update list replaces the stored
  size, the last entry for a price counting.
\<close>

definition spec_merge :: "ladder \<Rightarrow> (rat \<times> rat) list \<Rightarrow> (rat \<rightharpoonup> rat)" where
  "spec_merge prior update_list = map_of prior ++ map_of (rev update_list)"

text \<open>Dropping every entry whose size is not positive.\<close>

definition spec_drop_not_positive :: "(rat \<rightharpoonup> rat) \<Rightarrow> (rat \<rightharpoonup> rat)" where
  "spec_drop_not_positive m = (\<lambda>p. case m p of None \<Rightarrow> None | Some s \<Rightarrow> if 0 < s then Some s else None)"

text \<open>Keeping the \<open>n\<close> greatest, respectively smallest, prices.\<close>

definition spec_greatest :: "nat \<Rightarrow> (rat \<rightharpoonup> rat) \<Rightarrow> (rat \<rightharpoonup> rat)" where
  "spec_greatest n m = (\<lambda>p. if card {q \<in> dom m. p < q} < n then m p else None)"

definition spec_smallest :: "nat \<Rightarrow> (rat \<rightharpoonup> rat) \<Rightarrow> (rat \<rightharpoonup> rat)" where
  "spec_smallest n m = (\<lambda>p. if card {q \<in> dom m. q < p} < n then m p else None)"

text \<open>The list that \<^verbatim>\<open>update_runner_ladder\<close> sorts, named for the proofs.\<close>

definition kept_entries :: "ladder \<Rightarrow> (rat \<times> rat) list \<Rightarrow> ladder" where
  "kept_entries lad update_list =
     filter (\<lambda>(key, val). val > 0) (dict_update lad (list_ladder_to_dict update_list))"

subsection \<open>Trades as the specification describes them\<close>

definition spec_delta :: "ladder \<Rightarrow> rat \<Rightarrow> rat \<Rightarrow> rat" where
  "spec_delta prior price new_cumulative =
     round2 (new_cumulative - (case map_of prior price of None \<Rightarrow> 0 | Some v \<Rightarrow> v))"

definition spec_side :: "rat \<Rightarrow> lay_price \<Rightarrow> rat \<Rightarrow> string" where
  "spec_side best_back best_lay price =
     (if price \<le> best_back then ''b'' else if price_ge price best_lay then ''l'' else ''nan'')"

text \<open>One trade for every entry with a positive delta, in the order of the entries.\<close>

definition spec_trades :: "ladder \<Rightarrow> rat \<Rightarrow> lay_price \<Rightarrow> (rat \<times> rat) list \<Rightarrow> trade list" where
  "spec_trades prior best_back best_lay entries =
     map (\<lambda>(price, new_cumulative).
            (price, spec_delta prior price new_cumulative, spec_side best_back best_lay price))
         (filter (\<lambda>(price, new_cumulative). 0 < spec_delta prior price new_cumulative) entries)"

text \<open>The sum of the positive deltas.\<close>

definition spec_volume :: "ladder \<Rightarrow> (rat \<times> rat) list \<Rightarrow> rat" where
  "spec_volume prior entries =
     sum_list (map (\<lambda>(price, new_cumulative). spec_delta prior price new_cumulative)
                (filter (\<lambda>(price, new_cumulative). 0 < spec_delta prior price new_cumulative) entries))"

subsection \<open>Invariants of the current ladder\<close>

definition sides_sorted :: "runner_ladder \<Rightarrow> bool" where
  "sides_sorted rl \<longleftrightarrow>
     sorted_wrt (>) (map fst (atb rl)) \<and> sorted_wrt (<) (map fst (atl rl)) \<and>
     sorted_wrt (<) (map fst (trd rl))"

text \<open>The prices \<^verbatim>\<open>check_arbitrage\<close> reads off the snapshot of a runner.\<close>

definition first_back_price :: "runner_ladder \<Rightarrow> rat" where
  "first_back_price rl = (case atb rl of [] \<Rightarrow> default_best_back_price | (p, s) # rest \<Rightarrow> p)"

definition first_lay_price :: "runner_ladder \<Rightarrow> lay_price" where
  "first_lay_price rl = (case atl rl of [] \<Rightarrow> default_best_lay_price | (p, s) # rest \<Rightarrow> Price p)"

definition refresh_best :: "runner_ladder \<Rightarrow> runner_ladder" where
  "refresh_best rl = rl\<lparr>bbp := first_back_price rl, blp := first_lay_price rl\<rparr>"

text \<open>The state of a runner, and of the ladder, between two packets.\<close>

definition runner_at_boundary :: "runner_ladder \<Rightarrow> bool" where
  "runner_at_boundary rl \<longleftrightarrow>
     sides_sorted rl \<and> bbp rl = first_back_price rl \<and> blp rl = first_lay_price rl"

definition ladder_at_boundary :: "current_ladder \<Rightarrow> bool" where
  "ladder_at_boundary cl \<longleftrightarrow> distinct (map fst cl) \<and> list_all (\<lambda>(k, rl). runner_at_boundary rl) cl"

subsection \<open>Packets the specification rejects\<close>


subsection \<open>Ladders captured before in-play\<close>

text \<open>
  What the metadata builder holds after the snapshots \<open>docs\<close>, in their order: nothing
  when the market never goes in play, and otherwise, for each of the three windows, the
  first snapshot whose distance to the in-play start is below the threshold.
\<close>

definition pre_ladders_captured :: "metadata_builder \<Rightarrow> ts_document list \<Rightarrow> bool" where
  "pre_ladders_captured mb docs \<longleftrightarrow>
     inPlayStartTime (mb_metadata mb) = Some (mb_in_play_start mb) \<and>
     (case mb_in_play_start mb of
        None \<Rightarrow>
          mb_pre0ladder mb = None \<and> mb_pre5ladder mb = None \<and> mb_pre10ladder mb = None \<and>
          pre0ladder (mb_metadata mb) = None \<and> pre5ladder (mb_metadata mb) = None \<and>
          pre10ladder (mb_metadata mb) = None
      | Some t \<Rightarrow>
          mb_pre0ladder mb = find (\<lambda>d. t - doc_pt d < 1000) docs \<and>
          mb_pre5ladder mb = find (\<lambda>d. t - doc_pt d < 300000) docs \<and>
          mb_pre10ladder mb = find (\<lambda>d. t - doc_pt d < 600000) docs \<and>
          pre0ladder (mb_metadata mb) = map_option doc_runners (find (\<lambda>d. t - doc_pt d < 1000) docs) \<and>
          pre5ladder (mb_metadata mb) = map_option doc_runners (find (\<lambda>d. t - doc_pt d < 300000) docs) \<and>
          pre10ladder (mb_metadata mb) = map_option doc_runners (find (\<lambda>d. t - doc_pt d < 600000) docs))"

subsection \<open>The source of the metadata base\<close>

text \<open>
  A date string is in the format when \<^verbatim>\<open>strptime\<close> accepts it. The market change has an
  \<^verbatim>\<open>id\<close> and a market definition with an \<^verbatim>\<open>eventId\<close> and the three dates in the format.
\<close>

definition date_in_format :: "(string \<Rightarrow> string \<Rightarrow> datetime option) \<Rightarrow> string option \<Rightarrow> bool" where
  "date_in_format strptime field \<longleftrightarrow> (\<exists>s d. field = Some s \<and> strptime s date_format = Some d)"

definition metadata_source_ok :: "(string \<Rightarrow> string \<Rightarrow> datetime option) \<Rightarrow> market_change \<Rightarrow> bool" where
  "metadata_source_ok strptime mc \<longleftrightarrow>
     (\<exists>market_id md event_id.
        mc_id mc = Some market_id \<and> mc_marketDefinition mc = Some md \<and>
        md_eventId md = Some event_id \<and>
        date_in_format strptime (md_openDate md) \<and>
        date_in_format strptime (md_marketTime md) \<and>
        date_in_format strptime (md_suspendTime md))"

section \<open>An example market\<close>

text \<open>
  A market with the runners 1 and 2 and three packets: the first market definition, a
  runner change for runner 1, and the definition that turns in play. The theorems below
  are evaluated on it.
\<close>

definition example_runner :: runner_ladder where
  "example_runner = new_runner_ladder\<lparr>atb := [(3, 5), (2, 7)], atl := [(4, 1)], tv := Some 7, bbp := 3, blp := Price 4\<rparr>"

definition example_change :: runner_change where
  "example_change =
     \<lparr>rc_id = 1, rc_atb = Some [(5 / 2, 1), (3, 0)], rc_atl = Some [(5, 2), (9 / 2, 1)],
      rc_trd = Some [(3, 10), (4, 5), (7 / 2, 1), (4, 0)], rc_ltp = Some (5 / 2), rc_tv = Some 0\<rparr>"

definition example_packet :: packet where
  "example_packet =
     \<lparr>p_pt = Some 700001,
      p_mc = Some [\<lparr>mc_id = Some ''1.1'', mc_rc = Some [example_change], mc_marketDefinition = None\<rparr>],
      p_clk = Some ''AAA'', p_op = Some ''mcm''\<rparr>"

definition example_strptime :: "string \<Rightarrow> string \<Rightarrow> datetime option" where
  "example_strptime s f =
     (if s = ''2023-01-03T12:00:00.000Z'' \<and> f = ''%Y-%m-%dT%H:%M:%S.%fZ''
      then Some (Datetime 2023 1 3 12 0 0 0) else None)"

definition example_definition :: "string market_definition" where
  "example_definition =
     \<lparr>md_eventId = Some ''77'', md_openDate = Some ''2023-01-03T12:00:00.000Z'',
      md_marketTime = Some ''2023-01-03T12:00:00.000Z'',
      md_suspendTime = Some ''2023-01-03T12:00:00.000Z'',
      md_inPlay = Some False, md_name = Some ''2m4f Hcap Hrd'', md_marketType = Some ''WIN'',
      md_runners = Some [\<lparr>r_id = 1, r_name = ''A'', r_status = ''WINNER'', r_bsp = None\<rparr>,
                         \<lparr>r_id = 2, r_name = ''B'', r_status = ''LOSER'', r_bsp = Some 5\<rparr>],
      md_other = []\<rparr>"

definition example_first_packet :: packet where
  "example_first_packet =
     \<lparr>p_pt = Some 500001,
      p_mc = Some [\<lparr>mc_id = Some ''1.1'', mc_rc = Some [], mc_marketDefinition = Some example_definition\<rparr>],
      p_clk = Some ''AAA'', p_op = Some ''mcm''\<rparr>"

definition example_last_packet :: packet where
  "example_last_packet =
     \<lparr>p_pt = Some 1000000,
      p_mc = Some [\<lparr>mc_id = Some ''1.1'', mc_rc = Some [],
                    mc_marketDefinition = Some (example_definition\<lparr>md_inPlay := Some True\<rparr>)\<rparr>],
      p_clk = Some ''CCC'', p_op = Some ''mcm''\<rparr>"

definition example_builder :: ladder_builder where
  "example_builder =
     \<lparr>lb_marketdata = [], lb_ladders = [], lb_runner_ids = [1, 2],
      lb_current_ladder = [(1, new_runner_ladder), (2, new_runner_ladder)],
      lb_in_play_start = Some 1000000, lb_in_play_end = 1000000,
      lb_metadata_builder =
        \<lparr>mb_in_play_start = Some 1000000, mb_in_play_end = 1000000,
         mb_pre10ladder = None, mb_pre5ladder = None, mb_pre0ladder = None,
         mb_metadata =
           \<lparr>marketId = ''1.1'', meta_id = ''metadata_1.1_77'', eventId = ''77'',
            marketDefinition =
              \<lparr>md_eventId = Some ''77'',
               md_openDate = Some (Datetime 2023 1 3 12 0 0 0),
               md_marketTime = Some (Datetime 2023 1 3 12 0 0 0),
               md_suspendTime = Some (Datetime 2023 1 3 12 0 0 0),
               md_inPlay = Some True, md_name = Some ''2m4f Hcap Hrd'',
               md_marketType = Some ''WIN'',
               md_runners = Some [\<lparr>r_id = 1, r_name = ''A'', r_status = ''WINNER'', r_bsp = None\<rparr>,
                                  \<lparr>r_id = 2, r_name = ''B'', r_status = ''LOSER'', r_bsp = Some 5\<rparr>],
               md_other = []\<rparr>,
            meta_rc = Some [], inPlayStartTime = Some (Some 1000000),
            inPlayEndTime = Some 1000000, pre0ladder = None, pre5ladder = None,
            pre10ladder = None, winnerInfo = None, favouriteInfo = None\<rparr>,
         mb_market_id = ''1.1'', mb_event_id = ''77''\<rparr>,
      lb_market_id = ''1.1'', lb_event_id = ''77''\<rparr>"


definition example_crossed_change :: runner_change where
  "example_crossed_change =
     \<lparr>rc_id = 1, rc_atb = Some [(3, 10)], rc_atl = Some [(2, 10)], rc_trd = None,
      rc_ltp = None, rc_tv = None\<rparr>"

section \<open>Properties of the dictionaries\<close>

lemma map_of_dict_set: "map_of (dict_set k v d) = (map_of d)(k \<mapsto> v)"
  by (induction d) (auto simp: fun_eq_iff)

lemma map_fst_dict_set:
  "map fst (dict_set k v d) = (if k \<in> set (map fst d) then map fst d else map fst d @ [k])"
  by (induction d) (auto simp: rev_image_eqI)

lemma keys_dict_set: "fst ` set (dict_set k v d) = insert k (fst ` set d)"
proof -
  have "set (map fst (dict_set k v d)) = insert k (set (map fst d))"
    unfolding map_fst_dict_set by auto
  then show ?thesis by simp
qed

lemma distinct_dict_set: "distinct (map fst d) \<Longrightarrow> distinct (map fst (dict_set k v d))"
  unfolding map_fst_dict_set by auto

lemma dict_set_absent: "k \<notin> fst ` set d \<Longrightarrow> dict_set k v d = d @ [(k, v)]"
  by (induction d) auto

lemma map_of_fold_dict_set:
  "map_of (fold (\<lambda>(k, v) acc. dict_set k v acc) u d) = map_of d ++ map_of (rev u)"
  by (induction u arbitrary: d) (auto simp: map_of_dict_set fun_eq_iff map_add_def split: option.splits)

lemma distinct_fold_dict_set:
  "distinct (map fst d) \<Longrightarrow> distinct (map fst (fold (\<lambda>(k, v) acc. dict_set k v acc) u d))"
  by (induction u arbitrary: d) (auto simp: distinct_dict_set)

lemma keys_fold_dict_set:
  "fst ` set (fold (\<lambda>(k, v) acc. dict_set k v acc) u d) = fst ` set d \<union> fst ` set u"
proof (induction u arbitrary: d)
  case Nil
  then show ?case by simp
next
  case (Cons a u)
  obtain k v where a: "a = (k, v)" by (cases a)
  show ?case using Cons[of "dict_set k v d"] by (simp add: a keys_dict_set)
qed

section \<open>Sorted lists of pairs\<close>

lemma map_of_filter_positive:
  "distinct (map fst xs) \<Longrightarrow>
   map_of (filter (\<lambda>(k, v). P v) xs) p = (case map_of xs p of Some s \<Rightarrow> if P s then Some s else None | None \<Rightarrow> None)"
  by (induction xs) (auto split: option.splits simp: rev_image_eqI map_of_eq_None_iff)

lemma sorted_pairs_keys:
  fixes xs :: "('a::linorder \<times> 'b::linorder) list"
  shows "sorted xs \<Longrightarrow> distinct (map fst xs) \<Longrightarrow> sorted_wrt (<) (map fst xs)"
  by (induction xs) (force simp: less_eq_prod_def)+

lemma take_greatest:
  fixes ys :: "('a::linorder \<times> 'b) list"
  shows "sorted_wrt (>) (map fst ys) \<Longrightarrow>
    map_of (take n ys) p = (if card {q \<in> fst ` set ys. p < q} < n then map_of ys p else None)"
proof (induction ys arbitrary: n)
  case Nil
  then show ?case by simp
next
  case (Cons a ys)
  obtain k v where a: "a = (k, v)" by (cases a)
  from Cons.prems have below: "\<forall>q \<in> fst ` set ys. q < k"
    by (auto simp: a)
  from Cons.prems have sorted_tl: "sorted_wrt (>) (map fst ys)"
    by simp
  show ?case
  proof (cases n)
    case 0
    then show ?thesis by simp
  next
    case (Suc m)
    note IH = Cons.IH[OF sorted_tl, of m]
    consider (eq) "p = k" | (less) "p < k" | (greater) "k < p"
      by (meson linorder_neqE)
    then show ?thesis
    proof cases
      case eq
      have "{q \<in> fst ` set (a # ys). p < q} = {}"
        using below by (auto simp: a eq)
      then have c0: "card {q \<in> fst ` set (a # ys). p < q} = 0"
        by (simp only: card.empty)
      show ?thesis unfolding c0 by (simp add: a eq Suc)
    next
      case less
      have k_notin: "k \<notin> {q \<in> fst ` set ys. p < q}"
        using below by auto
      have "{q \<in> fst ` set (a # ys). p < q} = insert k {q \<in> fst ` set ys. p < q}"
        using less by (auto simp: a)
      then have cs: "card {q \<in> fst ` set (a # ys). p < q} = Suc (card {q \<in> fst ` set ys. p < q})"
        using k_notin by simp
      show ?thesis unfolding cs
        using less IH by (auto simp: a Suc)
    next
      case greater
      have "p \<notin> fst ` set ys"
        using below greater by auto
      then have none: "map_of ys p = None"
        by (simp add: map_of_eq_None_iff)
      have "p \<notin> fst ` set (take m ys)"
        using \<open>p \<notin> fst ` set ys\<close> set_take_subset[of m ys] by auto
      then have "map_of (take m ys) p = None"
        by (simp add: map_of_eq_None_iff)
      then show ?thesis
        using greater none by (auto simp: a Suc)
    qed
  qed
qed

lemma take_smallest:
  fixes ys :: "('a::linorder \<times> 'b) list"
  shows "sorted_wrt (<) (map fst ys) \<Longrightarrow>
    map_of (take n ys) p = (if card {q \<in> fst ` set ys. q < p} < n then map_of ys p else None)"
proof (induction ys arbitrary: n)
  case Nil
  then show ?case by simp
next
  case (Cons a ys)
  obtain k v where a: "a = (k, v)" by (cases a)
  from Cons.prems have above: "\<forall>q \<in> fst ` set ys. k < q"
    by (auto simp: a)
  from Cons.prems have sorted_tl: "sorted_wrt (<) (map fst ys)"
    by simp
  show ?case
  proof (cases n)
    case 0
    then show ?thesis by simp
  next
    case (Suc m)
    note IH = Cons.IH[OF sorted_tl, of m]
    consider (eq) "p = k" | (less) "p < k" | (greater) "k < p"
      by (meson linorder_neqE)
    then show ?thesis
    proof cases
      case eq
      have "{q \<in> fst ` set (a # ys). q < p} = {}"
        using above by (auto simp: a eq)
      then have c0: "card {q \<in> fst ` set (a # ys). q < p} = 0"
        by (simp only: card.empty)
      show ?thesis unfolding c0 by (simp add: a eq Suc)
    next
      case greater
      have k_notin: "k \<notin> {q \<in> fst ` set ys. q < p}"
        using above by auto
      have "{q \<in> fst ` set (a # ys). q < p} = insert k {q \<in> fst ` set ys. q < p}"
        using greater by (auto simp: a)
      then have cs: "card {q \<in> fst ` set (a # ys). q < p} = Suc (card {q \<in> fst ` set ys. q < p})"
        using k_notin by simp
      show ?thesis unfolding cs
        using greater IH by (auto simp: a Suc)
    next
      case less
      have "p \<notin> fst ` set ys"
        using above less by auto
      then have none: "map_of ys p = None"
        by (simp add: map_of_eq_None_iff)
      have "p \<notin> fst ` set (take m ys)"
        using \<open>p \<notin> fst ` set ys\<close> set_take_subset[of m ys] by auto
      then have "map_of (take m ys) p = None"
        by (simp add: map_of_eq_None_iff)
      then show ?thesis
        using less none by (auto simp: a Suc)
    qed
  qed
qed

section \<open>Ladder sides\<close>

lemma distinct_list_ladder_to_dict: "distinct (map fst (list_ladder_to_dict l))"
  unfolding list_ladder_to_dict_def by (rule distinct_fold_dict_set) simp

lemma map_of_list_ladder_to_dict: "map_of (list_ladder_to_dict l) = map_of (rev l)"
  unfolding list_ladder_to_dict_def by (simp add: map_of_fold_dict_set)

lemma map_of_rev_distinct:
  assumes "distinct (map fst d)"
  shows "map_of (rev d) = map_of d"
proof -
  have "distinct (map fst (rev d))"
    using assms by (simp add: rev_map[symmetric])
  then show ?thesis
    using assms by (simp add: map_of_inject_set)
qed

lemma map_of_dict_update:
  "map_of (dict_update lad (list_ladder_to_dict l)) = spec_merge lad l"
  unfolding dict_update_def spec_merge_def
  by (simp add: map_of_fold_dict_set map_of_rev_distinct distinct_list_ladder_to_dict
      map_of_list_ladder_to_dict)

lemma distinct_dict_update:
  "distinct (map fst lad) \<Longrightarrow> distinct (map fst (dict_update lad u))"
  unfolding dict_update_def by (rule distinct_fold_dict_set)

lemma distinct_kept_entries:
  "distinct (map fst lad) \<Longrightarrow> distinct (map fst (kept_entries lad l))"
  unfolding kept_entries_def by (simp add: distinct_map_filter distinct_dict_update)

lemma map_of_kept_entries:
  "distinct (map fst lad) \<Longrightarrow> map_of (kept_entries lad l) = spec_drop_not_positive (spec_merge lad l)"
  unfolding kept_entries_def spec_drop_not_positive_def
  by (rule ext) (simp add: map_of_filter_positive distinct_dict_update map_of_dict_update)

lemma positive_kept_entries: "(p, s) \<in> set (kept_entries lad l) \<Longrightarrow> 0 < s"
  unfolding kept_entries_def by simp

lemma distinct_keys_sort:
  fixes xs :: "(rat \<times> rat) list"
  shows "distinct (map fst xs) \<Longrightarrow> distinct (map fst (sort xs))"
  by (simp add: distinct_map)

lemma map_of_sort:
  fixes xs :: "(rat \<times> rat) list"
  shows "distinct (map fst xs) \<Longrightarrow> map_of (sort xs) = map_of xs"
  by (simp add: map_of_inject_set distinct_keys_sort)

lemma ascending_sort:
  fixes xs :: "(rat \<times> rat) list"
  shows "distinct (map fst xs) \<Longrightarrow> sorted_wrt (<) (map fst (sort xs))"
  by (rule sorted_pairs_keys) (simp_all add: distinct_keys_sort)

lemma descending_rev_sort:
  fixes xs :: "(rat \<times> rat) list"
  shows "distinct (map fst xs) \<Longrightarrow> sorted_wrt (>) (map fst (rev (sort xs)))"
  using ascending_sort[of xs] by (simp add: rev_map[symmetric] sorted_wrt_rev)

lemma map_of_rev_sort:
  fixes xs :: "(rat \<times> rat) list"
  shows "distinct (map fst xs) \<Longrightarrow> map_of (rev (sort xs)) = map_of xs"
  by (simp add: map_of_rev_distinct distinct_keys_sort map_of_sort)

lemma update_runner_ladder_kept:
  "update_runner_ladder rl c price_key =
     (let kept = kept_entries (ladder_side rl price_key)
                   (case change_side c price_key of None \<Rightarrow> [] | Some l \<Rightarrow> l)
      in case price_key of
           Atb_key \<Rightarrow> take 10 (rev (sort kept))
         | Atl_key \<Rightarrow> take 10 (sort kept)
         | Trd_key \<Rightarrow> sort kept)"
  by (simp add: update_runner_ladder_def kept_entries_def Let_def)

lemma dom_keys: "dom (map_of xs) = fst ` set xs"
  by (simp add: dom_map_of_conv_image_fst)

section \<open>The update of one runner\<close>

lemma trades_loop_spec:
  "trades_loop current_trd entries acc rl =
     (acc @ spec_trades current_trd (bbp rl) (blp rl) entries,
      rl\<lparr>ttrdv := ttrdv rl + spec_volume current_trd entries\<rparr>)"
proof (induction entries arbitrary: acc rl)
  case Nil
  then show ?case by (simp add: spec_trades_def spec_volume_def)
next
  case (Cons e entries)
  obtain p tot where e: "e = (p, tot)" by (cases e)
  show ?case
    by (simp add: e Cons spec_trades_def spec_volume_def spec_delta_def spec_side_def
        dict_get_def Let_def add.assoc)
qed

lemma update_runner_trades_spec:
  "update_runner_trades rl c =
     (spec_trades (trd rl) (bbp rl) (blp rl) (case rc_trd c of None \<Rightarrow> [] | Some l \<Rightarrow> l),
      rl\<lparr>ttrdv := ttrdv rl + spec_volume (trd rl) (case rc_trd c of None \<Rightarrow> [] | Some l \<Rightarrow> l)\<rparr>)"
  by (simp add: update_runner_trades_def trades_loop_spec)

lemma update_runner_ladder_cong:
  "ladder_side rl price_key = ladder_side rl' price_key \<Longrightarrow>
   update_runner_ladder rl c price_key = update_runner_ladder rl' c price_key"
  by (simp add: update_runner_ladder_def)

lemma update_runner_fields:
  "update_runner rl c =
     rl\<lparr>trades := spec_trades (trd rl) (bbp rl) (blp rl) (case rc_trd c of None \<Rightarrow> [] | Some l \<Rightarrow> l),
        atb := update_runner_ladder rl c Atb_key,
        atl := update_runner_ladder rl c Atl_key,
        trd := update_runner_ladder rl c Trd_key,
        ltp := update_runner_value rl c Ltp_key,
        tv := update_runner_value rl c Tv_key,
        ttrdv := ttrdv rl + spec_volume (trd rl) (case rc_trd c of None \<Rightarrow> [] | Some l \<Rightarrow> l)\<rparr>"
  by (simp add: update_runner_def update_runner_trades_spec Let_def update_runner_ladder_def
      ladder_side_def update_runner_value_def cong: option.case_cong if_cong)

lemma side_Atb:
  fixes rl :: runner_ladder and c :: runner_change
  assumes "distinct (map fst (atb rl))"
  defines "res \<equiv> update_runner_ladder rl c Atb_key"
  shows "map_of res = spec_greatest 10 (spec_drop_not_positive (spec_merge (atb rl) (case rc_atb c of None \<Rightarrow> [] | Some l \<Rightarrow> l)))"
    and "sorted_wrt (>) (map fst res)"
    and "length res \<le> 10"
    and "\<forall>(p, s) \<in> set res. 0 < s"
proof -
  define kept where "kept = kept_entries (atb rl) (case rc_atb c of None \<Rightarrow> [] | Some l \<Rightarrow> l)"
  have res: "res = take 10 (rev (sort kept))"
    by (simp add: res_def update_runner_ladder_kept kept_def ladder_side_def change_side_def)
  have d: "distinct (map fst kept)"
    unfolding kept_def using assms(1) by (rule distinct_kept_entries)
  have mk: "map_of kept = spec_drop_not_positive (spec_merge (atb rl) (case rc_atb c of None \<Rightarrow> [] | Some l \<Rightarrow> l))"
    unfolding kept_def using assms(1) by (rule map_of_kept_entries)
  have desc: "sorted_wrt (>) (map fst (rev (sort kept)))"
    using d by (rule descending_rev_sort)
  have m: "map_of (rev (sort kept)) = map_of kept"
    using d by (rule map_of_rev_sort)
  have keys: "fst ` set (rev (sort kept)) = dom (map_of kept)"
    by (simp add: dom_keys)
  show "map_of res = spec_greatest 10 (spec_drop_not_positive (spec_merge (atb rl) (case rc_atb c of None \<Rightarrow> [] | Some l \<Rightarrow> l)))"
    unfolding res spec_greatest_def
    by (rule ext) (simp only: take_greatest[OF desc] keys m mk)
  show "sorted_wrt (>) (map fst res)"
    unfolding res using desc by (simp add: take_map[symmetric] sorted_wrt_take)
  show "length res \<le> 10"
    unfolding res by simp
  have "set res \<subseteq> set kept"
    unfolding res using set_take_subset[of 10 "rev (sort kept)"] by simp
  then show "\<forall>(p, s) \<in> set res. 0 < s"
    unfolding kept_def using positive_kept_entries by blast
qed

lemma side_Atl:
  fixes rl :: runner_ladder and c :: runner_change
  assumes "distinct (map fst (atl rl))"
  defines "res \<equiv> update_runner_ladder rl c Atl_key"
  shows "map_of res = spec_smallest 10 (spec_drop_not_positive (spec_merge (atl rl) (case rc_atl c of None \<Rightarrow> [] | Some l \<Rightarrow> l)))"
    and "sorted_wrt (<) (map fst res)"
    and "length res \<le> 10"
    and "\<forall>(p, s) \<in> set res. 0 < s"
proof -
  define kept where "kept = kept_entries (atl rl) (case rc_atl c of None \<Rightarrow> [] | Some l \<Rightarrow> l)"
  have res: "res = take 10 (sort kept)"
    by (simp add: res_def update_runner_ladder_kept kept_def ladder_side_def change_side_def)
  have d: "distinct (map fst kept)"
    unfolding kept_def using assms(1) by (rule distinct_kept_entries)
  have mk: "map_of kept = spec_drop_not_positive (spec_merge (atl rl) (case rc_atl c of None \<Rightarrow> [] | Some l \<Rightarrow> l))"
    unfolding kept_def using assms(1) by (rule map_of_kept_entries)
  have asc: "sorted_wrt (<) (map fst (sort kept))"
    using d by (rule ascending_sort)
  have m: "map_of (sort kept) = map_of kept"
    using d by (rule map_of_sort)
  have keys: "fst ` set (sort kept) = dom (map_of kept)"
    by (simp add: dom_keys)
  show "map_of res = spec_smallest 10 (spec_drop_not_positive (spec_merge (atl rl) (case rc_atl c of None \<Rightarrow> [] | Some l \<Rightarrow> l)))"
    unfolding res spec_smallest_def
    by (rule ext) (simp only: take_smallest[OF asc] keys m mk)
  show "sorted_wrt (<) (map fst res)"
    unfolding res using asc by (simp add: take_map[symmetric] sorted_wrt_take)
  show "length res \<le> 10"
    unfolding res by simp
  have "set res \<subseteq> set kept"
    unfolding res using set_take_subset[of 10 "sort kept"] by simp
  then show "\<forall>(p, s) \<in> set res. 0 < s"
    unfolding kept_def using positive_kept_entries by blast
qed

lemma side_Trd:
  fixes rl :: runner_ladder and c :: runner_change
  assumes "distinct (map fst (trd rl))"
  defines "res \<equiv> update_runner_ladder rl c Trd_key"
  shows "map_of res = spec_drop_not_positive (spec_merge (trd rl) (case rc_trd c of None \<Rightarrow> [] | Some l \<Rightarrow> l))"
    and "sorted_wrt (<) (map fst res)"
    and "\<forall>(p, s) \<in> set res. 0 < s"
proof -
  define kept where "kept = kept_entries (trd rl) (case rc_trd c of None \<Rightarrow> [] | Some l \<Rightarrow> l)"
  have res: "res = sort kept"
    by (simp add: res_def update_runner_ladder_kept kept_def ladder_side_def change_side_def)
  have d: "distinct (map fst kept)"
    unfolding kept_def using assms(1) by (rule distinct_kept_entries)
  have mk: "map_of kept = spec_drop_not_positive (spec_merge (trd rl) (case rc_trd c of None \<Rightarrow> [] | Some l \<Rightarrow> l))"
    unfolding kept_def using assms(1) by (rule map_of_kept_entries)
  show "map_of res = spec_drop_not_positive (spec_merge (trd rl) (case rc_trd c of None \<Rightarrow> [] | Some l \<Rightarrow> l))"
    unfolding res by (simp only: map_of_sort[OF d] mk)
  show "sorted_wrt (<) (map fst res)"
    unfolding res using d by (rule ascending_sort)
  show "\<forall>(p, s) \<in> set res. 0 < s"
    unfolding res kept_def using positive_kept_entries by auto
qed

lemma strict_desc_distinct:
  fixes ks :: "'a::linorder list"
  shows "sorted_wrt (>) ks \<Longrightarrow> distinct ks"
  by (induction ks) auto

lemma strict_asc_distinct:
  fixes ks :: "'a::linorder list"
  shows "sorted_wrt (<) ks \<Longrightarrow> distinct ks"
  by (induction ks) auto

lemma sides_sorted_update_runner:
  assumes "sides_sorted rl"
  shows "sides_sorted (update_runner rl c)"
proof -
  have "distinct (map fst (atb rl))" "distinct (map fst (atl rl))" "distinct (map fst (trd rl))"
    using assms by (auto simp: sides_sorted_def strict_desc_distinct strict_asc_distinct)
  then show ?thesis
    by (simp add: sides_sorted_def update_runner_fields side_Atb(2) side_Atl(2) side_Trd(2))
qed


section \<open>The loop over the runner changes\<close>

lemma dict_get_in_set: "dict_get d k = Some v \<Longrightarrow> (k, v) \<in> set d"
  by (simp add: dict_get_def map_of_SomeD)

lemma dict_get_None_iff: "dict_get d k = None \<longleftrightarrow> k \<notin> fst ` set d"
  by (simp add: dict_get_def map_of_eq_None_iff)

lemma set_dict_set: "set (dict_set k v d) \<subseteq> insert (k, v) (set d)"
  by (induction d) (auto split: if_splits)

lemma map_fst_dict_set_present:
  "k \<in> fst ` set d \<Longrightarrow> map fst (dict_set k v d) = map fst d"
  by (simp add: map_fst_dict_set)




lemma update_ladder_loop_error: "update_ladder_loop cl rc = Inl e \<Longrightarrow> e = KeyError"
  by (induction rc arbitrary: cl) (auto split: option.splits)

lemma update_ladder_loop_keys:
  "update_ladder_loop cl rc = Inr cl' \<Longrightarrow> map fst cl' = map fst cl"
proof (induction rc arbitrary: cl)
  case Nil
  then show ?case by simp
next
  case (Cons c rc)
  then obtain rl where rl: "dict_get cl (rc_id c) = Some rl"
    by (auto split: option.splits)
  then have "rc_id c \<in> fst ` set cl"
    using dict_get_None_iff[of cl "rc_id c"] by auto
  then have "map fst (dict_set (rc_id c) (update_runner rl c) cl) = map fst cl"
    by (rule map_fst_dict_set_present)
  then show ?case
    using Cons rl by auto
qed

lemma update_ladder_loop_ok_iff:
  "(\<exists>cl'. update_ladder_loop cl rc = Inr cl') \<longleftrightarrow> (\<forall>c \<in> set rc. rc_id c \<in> fst ` set cl)"
proof (induction rc arbitrary: cl)
  case Nil
  then show ?case by simp
next
  case (Cons c rc)
  show ?case
  proof (cases "dict_get cl (rc_id c)")
    case None
    then have "rc_id c \<notin> fst ` set cl"
      by (simp add: dict_get_None_iff)
    then show ?thesis
      using None by simp
  next
    case (Some rl)
    then have "rc_id c \<in> fst ` set cl"
      using dict_get_None_iff[of cl "rc_id c"] by auto
    then show ?thesis
      using Some Cons[of "dict_set (rc_id c) (update_runner rl c) cl"]
      by (simp add: keys_dict_set insert_absorb)
  qed
qed


lemma update_ladder_loop_sorted:
  "update_ladder_loop cl rc = Inr cl' \<Longrightarrow> \<forall>(k, rl) \<in> set cl. sides_sorted rl \<Longrightarrow>
   \<forall>(k, rl) \<in> set cl'. sides_sorted rl"
proof (induction rc arbitrary: cl)
  case Nil
  then show ?case by simp
next
  case (Cons c rc)
  then obtain rl where rl: "dict_get cl (rc_id c) = Some rl"
    by (auto split: option.splits)
  then have "sides_sorted rl"
    using Cons.prems(2) dict_get_in_set by fastforce
  then have "sides_sorted (update_runner rl c)"
    by (rule sides_sorted_update_runner)
  then have "\<forall>(k, rl) \<in> set (dict_set (rc_id c) (update_runner rl c) cl). sides_sorted rl"
    using Cons.prems(2) set_dict_set[of "rc_id c" "update_runner rl c" cl] by auto
  then show ?case
    using Cons rl by auto
qed

section \<open>Snapshot and arbitrage check\<close>

lemma fold_dict_set_fresh:
  "distinct (map fst acc @ map fst cl) \<Longrightarrow>
   fold (\<lambda>(k, x) out. dict_set k (F x) out) cl acc = acc @ map (\<lambda>(k, x). (k, F x)) cl"
proof (induction cl arbitrary: acc)
  case Nil
  then show ?case by simp
next
  case (Cons a cl)
  obtain k x where a: "a = (k, x)" by (cases a)
  have fresh: "k \<notin> fst ` set acc"
    using Cons.prems by (auto simp: a)
  have "distinct (map fst (acc @ [(k, F x)]) @ map fst cl)"
    using Cons.prems by (auto simp: a)
  then show ?case
    using Cons.IH[of "acc @ [(k, F x)]"] by (simp add: a dict_set_absent[OF fresh])
qed

lemma format_ladder_map:
  "distinct (map fst cl) \<Longrightarrow> format_ladder cl = map (\<lambda>(k, rl). (k, format_runner rl)) cl"
  unfolding format_ladder_def using fold_dict_set_fresh[of "[]" cl format_runner] by simp

lemma dict_get_mid: "k \<notin> fst ` set xs \<Longrightarrow> dict_get (xs @ (k, v) # ys) k = Some v"
  by (induction xs) (auto simp: dict_get_def)

lemma dict_set_mid: "k \<notin> fst ` set xs \<Longrightarrow> dict_set k v' (xs @ (k, v) # ys) = xs @ (k, v') # ys"
  by (induction xs) auto

lemma check_arbitrage_formatted:
  "dict_get cl runner_id = Some rl' \<Longrightarrow>
   check_arbitrage cl (format_runner rl) runner_id =
     Inr (price_gt (first_back_price rl) (first_lay_price rl),
          dict_set runner_id (rl'\<lparr>bbp := first_back_price rl, blp := first_lay_price rl\<rparr>) cl)"
  by (auto simp: check_arbitrage_def format_runner_def first_back_price_def first_lay_price_def
      split: list.splits)

lemma raise_if_arbitrage_loop_refresh:
  "distinct (map fst (pre @ suf)) \<Longrightarrow>
   raise_if_arbitrage_loop (map (\<lambda>(k, rl). (k, refresh_best rl)) pre @ suf)
       (map (\<lambda>(k, rl). (k, format_runner rl)) suf)
     = Inr (map (\<lambda>(k, rl). (k, refresh_best rl)) (pre @ suf))"
proof (induction suf arbitrary: pre)
  case Nil
  then show ?case by simp
next
  case (Cons a suf)
  obtain k rl where a: "a = (k, rl)" by (cases a)
  let ?pre = "map (\<lambda>(k, rl). (k, refresh_best rl)) pre"
  have fresh: "k \<notin> fst ` set ?pre"
    using Cons.prems by (force simp: a)
  have step: "check_arbitrage (?pre @ (k, rl) # suf) (format_runner rl) k =
      Inr (price_gt (first_back_price rl) (first_lay_price rl), ?pre @ (k, refresh_best rl) # suf)"
    unfolding check_arbitrage_formatted[OF dict_get_mid[OF fresh, of rl suf], of rl]
      dict_set_mid[OF fresh] refresh_best_def[symmetric] by (rule refl)
  have "distinct (map fst ((pre @ [(k, rl)]) @ suf))"
    using Cons.prems by (simp add: a)
  from Cons.IH[OF this] show ?case
    by (simp add: a step)
qed

lemma raise_if_arbitrage_refresh:
  "distinct (map fst cl) \<Longrightarrow>
   raise_if_arbitrage cl (create_ts_document market_id (format_ladder cl) md pt)
     = Inr (map (\<lambda>(k, rl). (k, refresh_best rl)) cl)"
  using raise_if_arbitrage_loop_refresh[of "[]" cl]
  by (simp add: raise_if_arbitrage_def create_ts_document_def format_ladder_map)

lemma max_of_descending:
  fixes xs :: "(rat \<times> rat) list"
  shows "sorted_wrt (>) (map fst ((p, s) # rest)) \<Longrightarrow> Max (fst ` set ((p, s) # rest)) = p"
  by (intro Max_eqI) (auto simp: less_imp_le)

lemma min_of_ascending:
  fixes xs :: "(rat \<times> rat) list"
  shows "sorted_wrt (<) (map fst ((p, s) # rest)) \<Longrightarrow> Min (fst ` set ((p, s) # rest)) = p"
  by (intro Min_eqI) (auto simp: less_imp_le)

lemma first_back_price_max:
  assumes "sides_sorted rl"
  shows "first_back_price rl = (if atb rl = [] then 0 else Max (fst ` set (atb rl)))"
proof (cases "atb rl")
  case Nil
  then show ?thesis
    by (simp add: first_back_price_def default_best_back_price_def)
next
  case (Cons a rest)
  obtain p s where a: "a = (p, s)" by (cases a)
  have "sorted_wrt (>) (map fst ((p, s) # rest))"
    using assms by (simp add: sides_sorted_def Cons a)
  then have "Max (fst ` set ((p, s) # rest)) = p"
    by (rule max_of_descending)
  then show ?thesis
    by (simp add: first_back_price_def Cons a)
qed

lemma first_lay_price_min:
  assumes "sides_sorted rl"
  shows "first_lay_price rl = (if atl rl = [] then Infinity else Price (Min (fst ` set (atl rl))))"
proof (cases "atl rl")
  case Nil
  then show ?thesis
    by (simp add: first_lay_price_def default_best_lay_price_def)
next
  case (Cons a rest)
  obtain p s where a: "a = (p, s)" by (cases a)
  have "sorted_wrt (<) (map fst ((p, s) # rest))"
    using assms by (simp add: sides_sorted_def Cons a)
  then have "Min (fst ` set ((p, s) # rest)) = p"
    by (rule min_of_ascending)
  then show ?thesis
    by (simp add: first_lay_price_def Cons a)
qed

section \<open>The initial ladder\<close>

lemma fold_roster_distinct:
  "distinct (map fst acc) \<Longrightarrow> distinct (map fst (fold (\<lambda>k d. dict_set k v d) ks acc))"
  by (induction ks arbitrary: acc) (auto simp: distinct_dict_set)

lemma fold_roster_key_set:
  "fst ` set (fold (\<lambda>k d. dict_set k v d) ks acc) = fst ` set acc \<union> set ks"
  by (induction ks arbitrary: acc) (auto simp: keys_dict_set)

lemma fold_roster_values:
  "snd ` set acc \<subseteq> {v} \<Longrightarrow> snd ` set (fold (\<lambda>k d. dict_set k v d) ks acc) \<subseteq> {v}"
proof (induction ks arbitrary: acc)
  case Nil
  then show ?case by simp
next
  case (Cons k ks)
  have "snd ` set (dict_set k v acc) \<subseteq> {v}"
    using Cons.prems set_dict_set[of k v acc] by fastforce
  then show ?case
    using Cons.IH by simp
qed

lemma create_ladder_ds_keys: "fst ` set (create_ladder_ds runner_ids) = set runner_ids"
  by (simp add: create_ladder_ds_def fold_roster_key_set)

lemma create_ladder_ds_distinct: "distinct (map fst (create_ladder_ds runner_ids))"
  by (simp add: create_ladder_ds_def fold_roster_distinct)

lemma create_ladder_ds_values:
  "(k, rl) \<in> set (create_ladder_ds runner_ids) \<Longrightarrow> rl = new_runner_ladder"
  using fold_roster_values[of "[]" new_runner_ladder runner_ids]
  by (force simp: create_ladder_ds_def)

lemma new_runner_at_boundary: "runner_at_boundary new_runner_ladder"
  by (simp add: runner_at_boundary_def sides_sorted_def new_runner_ladder_def
      first_back_price_def first_lay_price_def)

lemma create_ladder_ds_boundary: "ladder_at_boundary (create_ladder_ds runner_ids)"
  using create_ladder_ds_values new_runner_at_boundary
  by (auto simp: ladder_at_boundary_def create_ladder_ds_distinct list_all_iff)

lemma refresh_at_boundary: "sides_sorted rl \<Longrightarrow> runner_at_boundary ((refresh_best rl)\<lparr>trades := []\<rparr>)"
  by (simp add: runner_at_boundary_def sides_sorted_def refresh_best_def first_back_price_def
      first_lay_price_def)

lemma reset_refresh:
  "reset_runner_trades (map (\<lambda>(k, rl). (k, refresh_best rl)) cl) =
   map (\<lambda>(k, rl). (k, (refresh_best rl)\<lparr>trades := []\<rparr>)) cl"
  by (simp add: reset_runner_trades_def case_prod_unfold)

section \<open>One packet and the run loop\<close>

lemma update_ladder_distinct:
  "update_ladder cl mc = Inr cl' \<Longrightarrow> distinct (map fst cl) \<Longrightarrow> distinct (map fst cl')"
  by (auto simp: update_ladder_def split: option.splits dest: update_ladder_loop_keys)

lemma update_ladder_keys:
  "update_ladder cl mc = Inr cl' \<Longrightarrow> map fst cl' = map fst cl"
  by (auto simp: update_ladder_def split: option.splits dest: update_ladder_loop_keys)

lemma update_ladder_sorted:
  "update_ladder cl mc = Inr cl' \<Longrightarrow> \<forall>(k, rl) \<in> set cl. sides_sorted rl \<Longrightarrow>
   \<forall>(k, rl) \<in> set cl'. sides_sorted rl"
  by (auto simp: update_ladder_def split: option.splits dest: update_ladder_loop_sorted)

lemma run_packet_Inr:
  assumes "run_packet strptime lb p = Inr lb'" and "distinct (map fst (lb_current_ladder lb))"
  obtains pt mc raw cl md where
    "process_packet p = Inr (pt, mc)"
    "set_raw_marketdata (lb_market_id lb) p pt = Inr raw"
    "update_ladder (lb_current_ladder lb) mc = Inr cl"
    "update_market_definition strptime mc = Inr md"
    "lb' = lb\<lparr>lb_marketdata := lb_marketdata lb @ [raw],
              lb_metadata_builder :=
                extend_pre_market (lb_metadata_builder lb)
                  (create_ts_document (lb_market_id lb) (format_ladder cl) md pt) pt,
              lb_ladders := lb_ladders lb @ [create_ts_document (lb_market_id lb) (format_ladder cl) md pt],
              lb_current_ladder := map (\<lambda>(k, rl). (k, (refresh_best rl)\<lparr>trades := []\<rparr>)) cl\<rparr>"
proof -
  from assms(1) obtain pt mc where pp: "process_packet p = Inr (pt, mc)"
    by (auto simp: run_packet_def split: sum.splits)
  from assms(1) pp obtain raw where raw: "set_raw_marketdata (lb_market_id lb) p pt = Inr raw"
    by (auto simp: run_packet_def split: sum.splits)
  from assms(1) pp raw obtain cl where cl: "update_ladder (lb_current_ladder lb) mc = Inr cl"
    by (auto simp: run_packet_def split: sum.splits)
  from assms(1) pp raw cl obtain md where md: "update_market_definition strptime mc = Inr md"
    by (auto simp: run_packet_def split: sum.splits)
  have d: "distinct (map fst cl)"
    using cl assms(2) by (rule update_ladder_distinct)
  have "lb' = lb\<lparr>lb_marketdata := lb_marketdata lb @ [raw],
              lb_metadata_builder :=
                extend_pre_market (lb_metadata_builder lb)
                  (create_ts_document (lb_market_id lb) (format_ladder cl) md pt) pt,
              lb_ladders := lb_ladders lb @ [create_ts_document (lb_market_id lb) (format_ladder cl) md pt],
              lb_current_ladder := map (\<lambda>(k, rl). (k, (refresh_best rl)\<lparr>trades := []\<rparr>)) cl\<rparr>"
    using assms(1)
    by (simp add: run_packet_def pp raw cl md Let_def raise_if_arbitrage_refresh[OF d] reset_refresh)
  with pp raw cl md show ?thesis
    by (rule that)
qed

lemma run_packet_boundary:
  assumes "run_packet strptime lb p = Inr lb'" and "ladder_at_boundary (lb_current_ladder lb)"
  shows "ladder_at_boundary (lb_current_ladder lb')"
    and "map fst (lb_current_ladder lb') = map fst (lb_current_ladder lb)"
proof -
  have d: "distinct (map fst (lb_current_ladder lb))"
    using assms(2) by (simp add: ladder_at_boundary_def)
  from assms(1) d obtain pt mc raw cl md where
    cl: "update_ladder (lb_current_ladder lb) mc = Inr cl" and
    lb': "lb' = lb\<lparr>lb_marketdata := lb_marketdata lb @ [raw],
              lb_metadata_builder :=
                extend_pre_market (lb_metadata_builder lb)
                  (create_ts_document (lb_market_id lb) (format_ladder cl) md pt) pt,
              lb_ladders := lb_ladders lb @ [create_ts_document (lb_market_id lb) (format_ladder cl) md pt],
              lb_current_ladder := map (\<lambda>(k, rl). (k, (refresh_best rl)\<lparr>trades := []\<rparr>)) cl\<rparr>"
    by (rule run_packet_Inr)
  have keys: "map fst cl = map fst (lb_current_ladder lb)"
    using cl by (rule update_ladder_keys)
  have "\<forall>(k, rl) \<in> set (lb_current_ladder lb). sides_sorted rl"
    using assms(2) by (auto simp: ladder_at_boundary_def list_all_iff runner_at_boundary_def)
  with cl have sorted: "\<forall>(k, rl) \<in> set cl. sides_sorted rl"
    by (rule update_ladder_sorted)
  show "map fst (lb_current_ladder lb') = map fst (lb_current_ladder lb)"
    by (simp add: lb' keys[symmetric] case_prod_unfold comp_def)
  then have "distinct (map fst (lb_current_ladder lb'))"
    using d by simp
  moreover have "list_all (\<lambda>(k, rl). runner_at_boundary rl) (lb_current_ladder lb')"
    using sorted refresh_at_boundary by (auto simp: lb' list_all_iff)
  ultimately show "ladder_at_boundary (lb_current_ladder lb')"
    by (simp add: ladder_at_boundary_def)
qed

lemma run_loop_boundary:
  "run_loop strptime lb ps = Inr lb' \<Longrightarrow> ladder_at_boundary (lb_current_ladder lb) \<Longrightarrow>
   ladder_at_boundary (lb_current_ladder lb') \<and> map fst (lb_current_ladder lb') = map fst (lb_current_ladder lb)"
proof (induction ps arbitrary: lb)
  case Nil
  then show ?case by simp
next
  case (Cons p ps)
  then obtain lb1 where lb1: "run_packet strptime lb p = Inr lb1"
    by (auto split: sum.splits)
  have "ladder_at_boundary (lb_current_ladder lb1)"
    and k: "map fst (lb_current_ladder lb1) = map fst (lb_current_ladder lb)"
    using run_packet_boundary[OF lb1 Cons.prems(2)] by simp_all
  then show ?case
    using Cons lb1 by auto
qed

section \<open>Reachable states\<close>

lemmas example_defs = example_builder_def example_strptime_def example_definition_def
  example_first_packet_def example_packet_def example_last_packet_def example_change_def
  new_runner_ladder_def default_best_back_price_def default_best_lay_price_def

lemmas run_defs = run_packet_def process_packet_def set_raw_marketdata_def update_ladder_def
  update_market_definition_def md_truthy_def format_metadata_def parse_date_def date_format_def
  format_ladder_def format_runner_def create_ts_document_def raise_if_arbitrage_def
  check_arbitrage_def dict_get_def reset_runner_trades_def extend_pre_market_def
  ONE_SECOND_def FIVE_MINUTES_def TEN_MINUTES_def update_runner_def update_runner_trades_def
  update_runner_ladder_def ladder_side_def change_side_def list_ladder_to_dict_def dict_update_def
  update_runner_value_def round2_def Let_def

lemma example_init:
  "LadderBuilder_init example_strptime [example_first_packet, example_packet, example_last_packet]
     example_definition = Inr example_builder"
  by (simp add: LadderBuilder_init_def get_runner_ids_def get_in_play_end_pt_def
      MetadataBuilder_init_def create_ladder_ds_def example_defs run_defs)

lemma example_run_ladder:
  "map_sum id lb_current_ladder (run_loop example_strptime example_builder [example_first_packet, example_packet])
     = Inr [(1, \<lparr>atb = [(5 / 2, 1)], atl = [(9 / 2, 1), (5, 2)],
              trd = [(3, 10), (7 / 2, 1)], trades = [], ltp = Some (5 / 2),
              tv = None, ttrdv = 16, bbp = 5 / 2, blp = Price (9 / 2)\<rparr>),
       (2, \<lparr>atb = [], atl = [], trd = [], trades = [], ltp = None,
              tv = None, ttrdv = 0, bbp = 0, blp = Infinity\<rparr>)]"
  by (simp add: example_defs run_defs)

lemma boundary_runner:
  assumes "ladder_at_boundary cl" and "(k, rl) \<in> set cl"
  shows "runner_at_boundary rl"
  using assms by (auto simp: ladder_at_boundary_def list_all_iff)

lemma boundary_best_prices:
  assumes "runner_at_boundary rl"
  shows "bbp rl = (if atb rl = [] then 0 else Max (fst ` set (atb rl)))"
    and "blp rl = (if atl rl = [] then Infinity else Price (Min (fst ` set (atl rl))))"
  using assms first_back_price_max[of rl] first_lay_price_min[of rl]
  by (simp_all add: runner_at_boundary_def)

lemma reachable_boundary:
  assumes "lb_current_ladder lb0 = create_ladder_ds runner_ids"
    and "run_loop strptime lb0 ps = Inr lb"
  shows "ladder_at_boundary (lb_current_ladder lb)"
    and "fst ` set (lb_current_ladder lb) = set runner_ids"
proof -
  have start: "ladder_at_boundary (lb_current_ladder lb0)"
    by (simp add: assms(1) create_ladder_ds_boundary)
  from run_loop_boundary[OF assms(2) start]
  show "ladder_at_boundary (lb_current_ladder lb)"
    and "fst ` set (lb_current_ladder lb) = set runner_ids"
    using create_ladder_ds_keys[of runner_ids] assms(1)
    by (simp_all flip: set_map)
qed

lemma update_ladder_result:
  "mc_rc market_change = Some rc \<Longrightarrow>
   (update_ladder cl market_change = Inl KeyError \<longleftrightarrow> (\<exists>c \<in> set rc. rc_id c \<notin> fst ` set cl)) \<and>
   ((\<exists>cl'. update_ladder cl market_change = Inr cl') \<longleftrightarrow> (\<forall>c \<in> set rc. rc_id c \<in> fst ` set cl))"
  using update_ladder_loop_ok_iff[of cl rc] update_ladder_loop_error[of cl rc]
  by (cases "update_ladder_loop cl rc") (auto simp: update_ladder_def)


lemma reachable_after_update:
  assumes "lb_current_ladder lb0 = create_ladder_ds runner_ids"
    and "run_loop strptime lb0 ps = Inr lb"
    and "update_ladder (lb_current_ladder lb) market_change = Inr cl"
  shows "distinct (map fst cl)" and "\<forall>(k, rl) \<in> set cl. sides_sorted rl"
proof -
  have b: "ladder_at_boundary (lb_current_ladder lb)"
    using assms(1,2) by (rule reachable_boundary)
  then have d: "distinct (map fst (lb_current_ladder lb))"
    by (simp add: ladder_at_boundary_def)
  show "distinct (map fst cl)"
    using assms(3) d by (rule update_ladder_distinct)
  have "\<forall>(k, rl) \<in> set (lb_current_ladder lb). sides_sorted rl"
    using b by (auto simp: ladder_at_boundary_def list_all_iff runner_at_boundary_def)
  with assms(3) show "\<forall>(k, rl) \<in> set cl. sides_sorted rl"
    by (rule update_ladder_sorted)
qed

section \<open>Metadata builder\<close>

lemma find_snoc:
  "find P (xs @ [x]) = (case find P xs of None \<Rightarrow> if P x then Some x else None | Some y \<Rightarrow> Some y)"
  by (induction xs) auto

lemma find_append_Some: "find P xs = Some y \<Longrightarrow> find P (xs @ ys) = Some y"
  by (induction xs) (auto split: if_splits)

lemma extend_pre_market_start:
  "mb_in_play_start (extend_pre_market mb doc pt) = mb_in_play_start mb"
  by (simp add: extend_pre_market_def Let_def split: option.splits)

lemma extend_pre_market_captured:
  assumes "pre_ladders_captured mb docs" and "doc_pt doc = pt"
  shows "pre_ladders_captured (extend_pre_market mb doc pt) (docs @ [doc])"
proof (cases "mb_in_play_start mb")
  case None
  then show ?thesis
    using assms by (simp add: pre_ladders_captured_def extend_pre_market_def)
next
  case (Some t)
  then show ?thesis
    using assms
    by (auto simp: pre_ladders_captured_def extend_pre_market_def Let_def find_snoc
        ONE_SECOND_def FIVE_MINUTES_def TEN_MINUTES_def split: option.splits)
qed

lemma run_packet_captured:
  assumes "run_packet strptime lb p = Inr lb'" and "ladder_at_boundary (lb_current_ladder lb)"
    and "pre_ladders_captured (lb_metadata_builder lb) (lb_ladders lb)"
  shows "pre_ladders_captured (lb_metadata_builder lb') (lb_ladders lb')"
    and "mb_in_play_start (lb_metadata_builder lb') = mb_in_play_start (lb_metadata_builder lb)"
    and "\<exists>doc. lb_ladders lb' = lb_ladders lb @ [doc]"
proof -
  have d: "distinct (map fst (lb_current_ladder lb))"
    using assms(2) by (simp add: ladder_at_boundary_def)
  from assms(1) d obtain pt mc raw cl md where
    lb': "lb' = lb\<lparr>lb_marketdata := lb_marketdata lb @ [raw],
              lb_metadata_builder :=
                extend_pre_market (lb_metadata_builder lb)
                  (create_ts_document (lb_market_id lb) (format_ladder cl) md pt) pt,
              lb_ladders := lb_ladders lb @ [create_ts_document (lb_market_id lb) (format_ladder cl) md pt],
              lb_current_ladder := map (\<lambda>(k, rl). (k, (refresh_best rl)\<lparr>trades := []\<rparr>)) cl\<rparr>"
    by (rule run_packet_Inr)
  have pt: "doc_pt (create_ts_document (lb_market_id lb) (format_ladder cl) md pt) = pt"
    by (simp add: create_ts_document_def)
  show "pre_ladders_captured (lb_metadata_builder lb') (lb_ladders lb')"
    using extend_pre_market_captured[OF assms(3) pt] by (simp add: lb')
  show "mb_in_play_start (lb_metadata_builder lb') = mb_in_play_start (lb_metadata_builder lb)"
    by (simp add: lb' extend_pre_market_start)
  show "\<exists>doc. lb_ladders lb' = lb_ladders lb @ [doc]"
    by (simp add: lb')
qed

lemma run_loop_captured:
  "run_loop strptime lb ps = Inr lb' \<Longrightarrow> ladder_at_boundary (lb_current_ladder lb) \<Longrightarrow>
   pre_ladders_captured (lb_metadata_builder lb) (lb_ladders lb) \<Longrightarrow>
   pre_ladders_captured (lb_metadata_builder lb') (lb_ladders lb') \<and>
   mb_in_play_start (lb_metadata_builder lb') = mb_in_play_start (lb_metadata_builder lb) \<and>
   (\<exists>docs. lb_ladders lb' = lb_ladders lb @ docs)"
proof (induction ps arbitrary: lb)
  case Nil
  then show ?case by simp
next
  case (Cons p ps)
  then obtain lb1 where lb1: "run_packet strptime lb p = Inr lb1"
    by (auto split: sum.splits)
  note step = run_packet_captured[OF lb1 Cons.prems(2,3)]
  have b1: "ladder_at_boundary (lb_current_ladder lb1)"
    using run_packet_boundary(1)[OF lb1 Cons.prems(2)] .
  have rest: "run_loop strptime lb1 ps = Inr lb'"
    using Cons.prems(1) lb1 by simp
  from Cons.IH[OF rest b1 step(1)] step(2,3) show ?case
    by auto
qed

lemma LadderBuilder_init_fresh:
  assumes "LadderBuilder_init strptime marketdata market_definition = Inr lb0"
  shows "\<exists>runner_ids. lb_current_ladder lb0 = create_ladder_ds runner_ids"
    and "lb_ladders lb0 = []"
    and "mb_in_play_start (lb_metadata_builder lb0) = lb_in_play_start lb0"
    and "pre_ladders_captured (lb_metadata_builder lb0) []"
  using assms
  by (auto simp: LadderBuilder_init_def MetadataBuilder_init_def format_metadata_def
      pre_ladders_captured_def split: sum.splits option.splits list.splits if_splits)

lemma reachable_captured:
  assumes "LadderBuilder_init strptime marketdata market_definition = Inr lb0"
    and "run_loop strptime lb0 ps = Inr lb"
  shows "pre_ladders_captured (lb_metadata_builder lb) (lb_ladders lb)"
    and "mb_in_play_start (lb_metadata_builder lb) = lb_in_play_start lb0"
    and "ladder_at_boundary (lb_current_ladder lb)"
proof -
  obtain runner_ids where ids: "lb_current_ladder lb0 = create_ladder_ds runner_ids"
    using LadderBuilder_init_fresh(1)[OF assms(1)] by blast
  have b0: "ladder_at_boundary (lb_current_ladder lb0)"
    by (simp add: ids create_ladder_ds_boundary)
  have c0: "pre_ladders_captured (lb_metadata_builder lb0) (lb_ladders lb0)"
    using LadderBuilder_init_fresh(2,4)[OF assms(1)] by simp
  from run_loop_captured[OF assms(2) b0 c0] LadderBuilder_init_fresh(3)[OF assms(1)]
  show "pre_ladders_captured (lb_metadata_builder lb) (lb_ladders lb)"
    and "mb_in_play_start (lb_metadata_builder lb) = lb_in_play_start lb0"
    by simp_all
  show "ladder_at_boundary (lb_current_ladder lb)"
    using reachable_boundary(1)[OF ids assms(2)] .
qed

lemma example_run_times:
  "map_sum id (\<lambda>lb. map doc_pt (lb_ladders lb))
     (run_loop example_strptime example_builder [example_first_packet, example_packet, example_last_packet])
   = Inr [500001, 700001, 1000000]"
  by (simp add: example_defs run_defs)

lemma parse_date_Inr:
  "parse_date strptime field = Inr d \<longleftrightarrow> (\<exists>s. field = Some s \<and> strptime s date_format = Some d)"
  by (auto simp: parse_date_def split: option.splits)

lemma parse_date_ok: "(\<exists>d. parse_date strptime field = Inr d) \<longleftrightarrow> date_in_format strptime field"
  by (auto simp: parse_date_Inr date_in_format_def)

lemma format_metadata_Inr:
  assumes "format_metadata strptime mc = Inr (meta, market_id, event_id)"
  obtains md open_date market_time suspend_time where
    "mc_id mc = Some market_id" "mc_marketDefinition mc = Some md" "md_eventId md = Some event_id"
    "parse_date strptime (md_openDate md) = Inr open_date"
    "parse_date strptime (md_marketTime md) = Inr market_time"
    "parse_date strptime (md_suspendTime md) = Inr suspend_time"
    "marketId meta = market_id" "eventId meta = event_id"
    "meta_id meta = ''metadata_'' @ market_id @ ''_'' @ event_id"
    "md_openDate (marketDefinition meta) = Some open_date"
    "md_marketTime (marketDefinition meta) = Some market_time"
    "md_suspendTime (marketDefinition meta) = Some suspend_time"
  using assms unfolding format_metadata_def
  by (auto split: option.splits sum.splits)

lemma format_metadata_ok:
  "(\<exists>res. format_metadata strptime mc = Inr res) \<longleftrightarrow> metadata_source_ok strptime mc"
proof
  assume "\<exists>res. format_metadata strptime mc = Inr res"
  then obtain meta market_id event_id where "format_metadata strptime mc = Inr (meta, market_id, event_id)"
    by (metis prod_cases3)
  then show "metadata_source_ok strptime mc"
    by (rule format_metadata_Inr) (auto simp: metadata_source_ok_def parse_date_ok[symmetric])
next
  assume "metadata_source_ok strptime mc"
  then obtain market_id md event_id od mt st where
    "mc_id mc = Some market_id" "mc_marketDefinition mc = Some md" "md_eventId md = Some event_id"
    "parse_date strptime (md_openDate md) = Inr od"
    "parse_date strptime (md_marketTime md) = Inr mt"
    "parse_date strptime (md_suspendTime md) = Inr st"
    unfolding metadata_source_ok_def parse_date_ok[symmetric] by blast
  then show "\<exists>res. format_metadata strptime mc = Inr res"
    by (simp add: format_metadata_def)
qed

lemma format_metadata_error:
  "format_metadata strptime mc = Inl e \<Longrightarrow> e = KeyError \<or> e = ValueError"
  by (auto simp: format_metadata_def parse_date_def split: option.splits sum.splits)

lemma get_in_play_end_pt_Inr:
  "get_in_play_end_pt marketdata = Inr t \<Longrightarrow>
   marketdata \<noteq> [] \<and> (\<exists>mc. p_mc (last marketdata) = Some [mc])"
  by (auto simp: get_in_play_end_pt_def process_packet_def
      split: if_splits sum.splits option.splits list.splits)

lemma LadderBuilder_init_Inr:
  assumes "LadderBuilder_init strptime marketdata market_definition = Inr lb"
  obtains mc meta where
    "marketdata \<noteq> []" "p_mc (last marketdata) = Some [mc]"
    "format_metadata strptime mc = Inr (meta, lb_market_id lb, lb_event_id lb)"
    "mb_metadata (lb_metadata_builder lb) =
       meta\<lparr>inPlayStartTime := Some (lb_in_play_start lb), inPlayEndTime := Some (lb_in_play_end lb)\<rparr>"
proof -
  from assms obtain in_play_end where "get_in_play_end_pt marketdata = Inr in_play_end"
    by (auto simp: LadderBuilder_init_def split: sum.splits)
  then obtain mc where ne: "marketdata \<noteq> []" and last: "p_mc (last marketdata) = Some [mc]"
    using get_in_play_end_pt_Inr by blast
  from assms ne last obtain meta where
    "format_metadata strptime mc = Inr (meta, lb_market_id lb, lb_event_id lb)"
    "mb_metadata (lb_metadata_builder lb) =
       meta\<lparr>inPlayStartTime := Some (lb_in_play_start lb), inPlayEndTime := Some (lb_in_play_end lb)\<rparr>"
    by (auto simp: LadderBuilder_init_def MetadataBuilder_init_def split: sum.splits)
  with ne last show ?thesis
    by (rule that)
qed

section \<open>Claims\<close>

text \<open>
  C1, as the code has it. In every state the run reaches, applying a market change
  whose \<^verbatim>\<open>rc\<close> has a runner change with a runner id outside the roster raises
  \<^verbatim>\<open>KeyError\<close>; the market change is applied exactly when all its runner ids are in
  the roster. The counterexample has a change of a runner of the roster followed by a
  change of the unknown runner 3.
\<close>

theorem unknown_runner_raises:
  assumes "lb_current_ladder lb0 = create_ladder_ds runner_ids"
    and "run_loop strptime lb0 ps = Inr lb"
    and "mc_rc market_change = Some rc"
  shows "((\<exists>c \<in> set rc. rc_id c \<notin> set runner_ids) \<longleftrightarrow>
            update_ladder (lb_current_ladder lb) market_change = Inl KeyError) \<and>
         ((\<forall>c \<in> set rc. rc_id c \<in> set runner_ids) \<longleftrightarrow>
            (\<exists>cl. update_ladder (lb_current_ladder lb) market_change = Inr cl))"
  using update_ladder_result[OF assms(3), of "lb_current_ladder lb"]
    reachable_boundary(2)[OF assms(1,2)]
  by simp

theorem unknown_runner_raises_witness:
  "lb_current_ladder example_builder = create_ladder_ds [1, 2] \<and>
   run_loop example_strptime example_builder [] = Inr example_builder \<and>
   mc_rc \<lparr>mc_id = Some ''1.1'', mc_rc = Some [example_change, example_change\<lparr>rc_id := 3\<rparr>],
          mc_marketDefinition = None\<rparr> = Some [example_change, example_change\<lparr>rc_id := 3\<rparr>] \<and>
   update_ladder (lb_current_ladder example_builder)
     \<lparr>mc_id = Some ''1.1'', mc_rc = Some [example_change, example_change\<lparr>rc_id := 3\<rparr>],
      mc_marketDefinition = None\<rparr> = Inl KeyError"
proof -
  have h: "lb_current_ladder example_builder = create_ladder_ds [1, 2]"
    by (simp add: example_builder_def create_ladder_ds_def)
  have r: "run_loop example_strptime example_builder [] = Inr example_builder"
    by simp
  have m: "mc_rc \<lparr>mc_id = Some ''1.1'', mc_rc = Some [example_change, example_change\<lparr>rc_id := 3\<rparr>],
          mc_marketDefinition = None\<rparr> = Some [example_change, example_change\<lparr>rc_id := 3\<rparr>]"
    by simp
  have "\<exists>c \<in> set [example_change, example_change\<lparr>rc_id := 3\<rparr>]. rc_id c \<notin> set [1, 2]"
    by simp
  with unknown_runner_raises[OF h r m] h r m show ?thesis
    by blast
qed

theorem unknown_runner_counterexample:
  "update_ladder (create_ladder_ds [1, 2])
     \<lparr>mc_id = Some ''1.1'', mc_rc = Some [example_change, example_change\<lparr>rc_id := 3\<rparr>],
      mc_marketDefinition = None\<rparr> = Inl KeyError \<and>
   \<not> isl (update_ladder (create_ladder_ds [1, 2])
            \<lparr>mc_id = Some ''1.1'', mc_rc = Some [example_change], mc_marketDefinition = None\<rparr>)"
  by (simp add: update_ladder_def create_ladder_ds_def dict_get_def example_change_def)



text \<open>
  C3. The code at a final market definition whose winner A has no \<^verbatim>\<open>bsp\<close> and whose
  other runner B has \<^verbatim>\<open>bsp\<close> 5: \<^verbatim>\<open>extend_post_market\<close> collects the \<^verbatim>\<open>bsp\<close> values of
  the runners that have one, and the two extractors index that shorter list by the
  positions of the full runner list. The winner, and the only favourite, is A with the
  \<^verbatim>\<open>bsp\<close> of B. When instead the first runner has no \<^verbatim>\<open>bsp\<close> and the second one is
  the winner, the index of the winner is past the end of that list and the code raises
  \<^verbatim>\<open>IndexError\<close>.
\<close>

theorem post_market_pairs_bsp_by_position:
  "map_sum id (\<lambda>mb. (winnerInfo (mb_metadata mb), favouriteInfo (mb_metadata mb)))
     (extend_post_market (lb_metadata_builder example_builder))
   = Inr (Some \<lparr>w_name = ''A'', w_id = 1, w_bsp = Some 5\<rparr>,
          Some [\<lparr>fav_name = ''A'', fav_id = 1, fav_bsp = 5\<rparr>]) \<and>
   extend_post_market
     ((lb_metadata_builder example_builder)
        \<lparr>mb_metadata := (mb_metadata (lb_metadata_builder example_builder))
           \<lparr>marketDefinition := (marketDefinition (mb_metadata (lb_metadata_builder example_builder)))
              \<lparr>md_runners :=
                 Some [\<lparr>r_id = 1, r_name = ''A'', r_status = ''LOSER'', r_bsp = None\<rparr>,
                       \<lparr>r_id = 2, r_name = ''B'', r_status = ''WINNER'', r_bsp = Some 3\<rparr>]\<rparr>\<rparr>\<rparr>)
   = Inl IndexError"
  by (simp add: extend_post_market_def extract_winner_info_def extract_favourite_info_def py_index_def
      example_builder_def Let_def)

text \<open>
  C4, as the code has it. \<^verbatim>\<open>check_arbitrage\<close> is handed the runners of the formatted
  snapshot, where \<^verbatim>\<open>atb\<close> and \<^verbatim>\<open>atl\<close> are lists of pairs. After the runner changes of a
  packet have been applied in a state the run reaches, \<^verbatim>\<open>raise_if_arbitrage\<close> does not
  raise, and for every runner \<^verbatim>\<open>check_arbitrage\<close> returns whether the best back price
  (0 for an empty \<^verbatim>\<open>atb\<close>) is greater than the best lay price (infinity for an empty
  \<^verbatim>\<open>atl\<close>). The counterexample is a packet that crosses the book of runner 1.
\<close>

theorem arbitrage_check_detects_crossed_book:
  assumes "lb_current_ladder lb0 = create_ladder_ds runner_ids"
    and "run_loop strptime lb0 ps = Inr lb"
    and "update_ladder (lb_current_ladder lb) market_change = Inr cl"
  shows "(\<exists>cl'. raise_if_arbitrage cl
                  (create_ts_document market_id (format_ladder cl) market_definition pt) = Inr cl') \<and>
         (\<forall>(runner_id, rl) \<in> set cl. \<forall>cl2. runner_id \<in> fst ` set cl2 \<longrightarrow>
            (\<exists>cl'. check_arbitrage cl2 (format_runner rl) runner_id =
               Inr (price_gt (if atb rl = [] then 0 else Max (fst ` set (atb rl)))
                             (if atl rl = [] then Infinity else Price (Min (fst ` set (atl rl)))),
                    cl')))"
proof -
  note after = reachable_after_update[OF assms]
  have never_raises: "\<exists>cl'. raise_if_arbitrage cl
      (create_ts_document market_id (format_ladder cl) market_definition pt) = Inr cl'"
    by (simp add: raise_if_arbitrage_refresh[OF after(1)])
  have "\<exists>cl'. check_arbitrage cl2 (format_runner rl) runner_id =
               Inr (price_gt (if atb rl = [] then 0 else Max (fst ` set (atb rl)))
                             (if atl rl = [] then Infinity else Price (Min (fst ` set (atl rl)))),
                    cl')"
    if mem: "(runner_id, rl) \<in> set cl" and key: "runner_id \<in> fst ` set cl2" for runner_id rl cl2
  proof -
    have s: "sides_sorted rl"
      using after(2) mem by auto
    obtain rl' where "dict_get cl2 runner_id = Some rl'"
      using key dict_get_None_iff[of cl2 runner_id] by (cases "dict_get cl2 runner_id") auto
    from check_arbitrage_formatted[OF this, of rl] show ?thesis
      by (simp add: first_back_price_max[OF s] first_lay_price_min[OF s])
  qed
  with never_raises show ?thesis
    by blast
qed

theorem arbitrage_check_detects_crossed_book_witness:
  "lb_current_ladder example_builder = create_ladder_ds [1, 2] \<and>
   run_loop example_strptime example_builder [] = Inr example_builder \<and>
   (\<exists>cl rl cl'.
      update_ladder (lb_current_ladder example_builder)
        \<lparr>mc_id = Some ''1.1'', mc_rc = Some [example_crossed_change], mc_marketDefinition = None\<rparr> = Inr cl \<and>
      (1, rl) \<in> set cl \<and> atb rl = [(3, 10)] \<and> atl rl = [(2, 10)] \<and>
      check_arbitrage cl (format_runner rl) 1 = Inr (True, cl'))"
proof -
  have h: "lb_current_ladder example_builder = create_ladder_ds [1, 2]"
    by (simp add: example_builder_def create_ladder_ds_def)
  have r: "run_loop example_strptime example_builder [] = Inr example_builder"
    by simp
  define rl where "rl = new_runner_ladder\<lparr>atb := [(3, 10)], atl := [(2, 10)]\<rparr>"
  define cl where "cl = [(1 :: int, rl), (2, new_runner_ladder)]"
  have upd: "update_ladder (lb_current_ladder example_builder)
        \<lparr>mc_id = Some ''1.1'', mc_rc = Some [example_crossed_change], mc_marketDefinition = None\<rparr> = Inr cl"
    by (simp add: cl_def rl_def example_crossed_change_def example_defs run_defs)
  have mem: "(1, rl) \<in> set cl" and key: "1 \<in> fst ` set cl"
    by (simp_all add: cl_def)
  from arbitrage_check_detects_crossed_book[OF h r upd, of "''1.1''" None 0] mem key
  obtain cl' where "check_arbitrage cl (format_runner rl) 1 =
      Inr (price_gt (if atb rl = [] then 0 else Max (fst ` set (atb rl)))
                    (if atl rl = [] then Infinity else Price (Min (fst ` set (atl rl)))), cl')"
    by blast
  moreover have "atb rl = [(3, 10)]" "atl rl = [(2, 10)]"
    by (simp_all add: rl_def)
  ultimately have "check_arbitrage cl (format_runner rl) 1 = Inr (True, cl')"
    by simp
  then show ?thesis
    using h r upd mem \<open>atb rl = [(3, 10)]\<close> \<open>atl rl = [(2, 10)]\<close> by blast
qed

theorem arbitrage_check_counterexample:
  "map_sum id
     (\<lambda>cl. map (\<lambda>(runner_id, runner_ladder). map_sum id fst (check_arbitrage cl runner_ladder runner_id))
              (format_ladder cl))
     (update_ladder (create_ladder_ds [1, 2])
        \<lparr>mc_id = Some ''1.1'', mc_rc = Some [example_crossed_change], mc_marketDefinition = None\<rparr>)
   = Inr [Inr True, Inr False]"
  by (simp add: create_ladder_ds_def example_crossed_change_def example_defs run_defs)

text \<open>
  C5. After a runner change has been applied to a runner, each side is the prior
  mapping merged with the update entries, without the entries of size at most 0, and
  then: \<^verbatim>\<open>atb\<close> holds the 10 greatest prices at most, in descending order; \<^verbatim>\<open>atl\<close> holds
  the 10 smallest prices at most, in ascending order; \<^verbatim>\<open>trd\<close> holds all prices, in
  ascending order. So \<^verbatim>\<open>atb\<close> and \<^verbatim>\<open>atl\<close> have at most 10 entries, every kept size is
  positive, and the snapshot emits each non-empty side as it is stored.
\<close>

theorem ladder_sides_after_update:
  assumes "distinct (map fst (atb rl))" and "distinct (map fst (atl rl))"
    and "distinct (map fst (trd rl))"
  shows "map_of (atb (update_runner rl c)) =
           spec_greatest 10 (spec_drop_not_positive
             (spec_merge (atb rl) (case rc_atb c of None \<Rightarrow> [] | Some l \<Rightarrow> l))) \<and>
         sorted_wrt (>) (map fst (atb (update_runner rl c))) \<and>
         length (atb (update_runner rl c)) \<le> 10 \<and>
         map_of (atl (update_runner rl c)) =
           spec_smallest 10 (spec_drop_not_positive
             (spec_merge (atl rl) (case rc_atl c of None \<Rightarrow> [] | Some l \<Rightarrow> l))) \<and>
         sorted_wrt (<) (map fst (atl (update_runner rl c))) \<and>
         length (atl (update_runner rl c)) \<le> 10 \<and>
         map_of (trd (update_runner rl c)) =
           spec_drop_not_positive (spec_merge (trd rl) (case rc_trd c of None \<Rightarrow> [] | Some l \<Rightarrow> l)) \<and>
         sorted_wrt (<) (map fst (trd (update_runner rl c))) \<and>
         (\<forall>(p, s) \<in> set (atb (update_runner rl c)) \<union> set (atl (update_runner rl c)) \<union>
              set (trd (update_runner rl c)). 0 < s) \<and>
         f_atb (format_runner (update_runner rl c)) =
           (if atb (update_runner rl c) = [] then None else Some (atb (update_runner rl c))) \<and>
         f_atl (format_runner (update_runner rl c)) =
           (if atl (update_runner rl c) = [] then None else Some (atl (update_runner rl c))) \<and>
         f_trd (format_runner (update_runner rl c)) =
           (if trd (update_runner rl c) = [] then None else Some (trd (update_runner rl c)))"
proof -
  have sides:
    "atb (update_runner rl c) = update_runner_ladder rl c Atb_key"
    "atl (update_runner rl c) = update_runner_ladder rl c Atl_key"
    "trd (update_runner rl c) = update_runner_ladder rl c Trd_key"
    by (simp_all add: update_runner_fields)
  have positive:
    "\<forall>(p, s) \<in> set (atb (update_runner rl c)) \<union> set (atl (update_runner rl c)) \<union>
        set (trd (update_runner rl c)). 0 < s"
    unfolding sides using side_Atb(4)[OF assms(1), of c] side_Atl(4)[OF assms(2), of c]
      side_Trd(3)[OF assms(3), of c] by blast
  have emitted:
    "f_atb (format_runner (update_runner rl c)) =
       (if atb (update_runner rl c) = [] then None else Some (atb (update_runner rl c)))"
    "f_atl (format_runner (update_runner rl c)) =
       (if atl (update_runner rl c) = [] then None else Some (atl (update_runner rl c)))"
    "f_trd (format_runner (update_runner rl c)) =
       (if trd (update_runner rl c) = [] then None else Some (trd (update_runner rl c)))"
    by (simp_all add: format_runner_def)
  show ?thesis
    using positive emitted
    by (simp only: sides side_Atb(1-3)[OF assms(1)] side_Atl(1-3)[OF assms(2)]
        side_Trd(1,2)[OF assms(3)] simp_thms)
qed

theorem ladder_sides_after_update_witness:
  "distinct (map fst (atb example_runner)) \<and> distinct (map fst (atl example_runner)) \<and>
   distinct (map fst (trd example_runner)) \<and>
   atb (update_runner example_runner example_change) = [(5 / 2, 1), (2, 7)] \<and>
   atl (update_runner example_runner example_change) = [(4, 1), (9 / 2, 1), (5, 2)] \<and>
   trd (update_runner example_runner example_change) = [(3, 10), (7 / 2, 1)] \<and>
   sorted_wrt (>) (map fst (atb (update_runner example_runner example_change))) \<and>
   length (atb (update_runner example_runner example_change)) \<le> 10 \<and>
   map_of (trd (update_runner example_runner example_change)) =
     spec_drop_not_positive (spec_merge (trd example_runner) [(3, 10), (4, 5), (7 / 2, 1), (4, 0)])"
proof -
  have h: "distinct (map fst (atb example_runner))" "distinct (map fst (atl example_runner))"
    "distinct (map fst (trd example_runner))"
    by (simp_all add: example_runner_def new_runner_ladder_def)
  have sides:
    "atb (update_runner example_runner example_change) = [(5 / 2, 1), (2, 7)]"
    "atl (update_runner example_runner example_change) = [(4, 1), (9 / 2, 1), (5, 2)]"
    "trd (update_runner example_runner example_change) = [(3, 10), (7 / 2, 1)]"
    by (simp_all add: update_runner_fields update_runner_ladder_def ladder_side_def change_side_def
        example_runner_def example_change_def new_runner_ladder_def list_ladder_to_dict_def
        dict_update_def)
  have "rc_trd example_change = Some [(3, 10), (4, 5), (7 / 2, 1), (4, 0)]"
    by (simp add: example_change_def)
  with ladder_sides_after_update[OF h, of example_change] h sides show ?thesis
    by simp
qed

text \<open>
  C6. Before the first packet and after every packet that has been processed, the
  current ladder has the runners of the roster, and for every runner \<^verbatim>\<open>bbp\<close> is the
  greatest price of \<^verbatim>\<open>atb\<close>, or 0 when \<^verbatim>\<open>atb\<close> is empty, and \<^verbatim>\<open>blp\<close> is the smallest
  price of \<^verbatim>\<open>atl\<close>, or infinity when \<^verbatim>\<open>atl\<close> is empty. The builder \<open>lb0\<close> is one that
  starts from the ladder of \<^verbatim>\<open>create_ladder_ds\<close>; \<open>ps\<close> are the packets processed so far.
\<close>

theorem best_prices_at_packet_boundary:
  assumes "lb_current_ladder lb0 = create_ladder_ds runner_ids"
    and "run_loop strptime lb0 ps = Inr lb"
  shows "fst ` set (lb_current_ladder lb) = set runner_ids \<and>
         (\<forall>(runner_id, rl) \<in> set (lb_current_ladder lb).
            bbp rl = (if atb rl = [] then 0 else Max (fst ` set (atb rl))) \<and>
            blp rl = (if atl rl = [] then Infinity else Price (Min (fst ` set (atl rl)))))"
proof -
  have "bbp rl = (if atb rl = [] then 0 else Max (fst ` set (atb rl))) \<and>
        blp rl = (if atl rl = [] then Infinity else Price (Min (fst ` set (atl rl))))"
    if "(runner_id, rl) \<in> set (lb_current_ladder lb)" for runner_id rl
    using boundary_best_prices[OF boundary_runner[OF reachable_boundary(1)[OF assms] that]]
    by simp
  then show ?thesis
    using reachable_boundary(2)[OF assms] by blast
qed

theorem best_prices_at_packet_boundary_witness:
  "lb_current_ladder example_builder = create_ladder_ds [1, 2] \<and>
   (\<exists>lb rl. run_loop example_strptime example_builder [example_first_packet, example_packet] = Inr lb \<and>
      (1, rl) \<in> set (lb_current_ladder lb) \<and>
      atb rl = [(5 / 2, 1)] \<and> atl rl = [(9 / 2, 1), (5, 2)] \<and>
      bbp rl = 5 / 2 \<and> blp rl = Price (9 / 2) \<and>
      bbp rl = Max (fst ` set (atb rl)) \<and> blp rl = Price (Min (fst ` set (atl rl))))"
proof -
  have h: "lb_current_ladder example_builder = create_ladder_ds [1, 2]"
    by (simp add: example_builder_def create_ladder_ds_def)
  obtain lb where run: "run_loop example_strptime example_builder [example_first_packet, example_packet] = Inr lb"
    and cur: "lb_current_ladder lb =
      [(1, \<lparr>atb = [(5 / 2, 1)], atl = [(9 / 2, 1), (5, 2)],
              trd = [(3, 10), (7 / 2, 1)], trades = [], ltp = Some (5 / 2),
              tv = None, ttrdv = 16, bbp = 5 / 2, blp = Price (9 / 2)\<rparr>),
       (2, \<lparr>atb = [], atl = [], trd = [], trades = [], ltp = None,
              tv = None, ttrdv = 0, bbp = 0, blp = Infinity\<rparr>)]"
    using example_run_ladder
    by (cases "run_loop example_strptime example_builder [example_first_packet, example_packet]") auto
  define rl where "rl = \<lparr>atb = [(5 / 2, 1)], atl = [(9 / 2, 1), (5, 2)],
              trd = [(3, 10), (7 / 2, 1)], trades = [], ltp = Some (5 / 2),
              tv = None, ttrdv = 16, bbp = 5 / 2, blp = Price (9 / 2)\<rparr>"
  have mem: "(1, rl) \<in> set (lb_current_ladder lb)"
    by (simp add: cur rl_def)
  from best_prices_at_packet_boundary[OF h run] mem
  have "bbp rl = (if atb rl = [] then 0 else Max (fst ` set (atb rl))) \<and>
        blp rl = (if atl rl = [] then Infinity else Price (Min (fst ` set (atl rl))))"
    by blast
  moreover have "atb rl = [(5 / 2, 1)]" "atl rl = [(9 / 2, 1), (5, 2)]" "bbp rl = 5 / 2"
    "blp rl = Price (9 / 2)"
    by (simp_all add: rl_def)
  ultimately show ?thesis
    using h run mem by (intro conjI exI[of _ lb] exI[of _ rl]) simp_all
qed

text \<open>
  C7. In every state the run reaches from a constructed builder: the metadata holds the
  in-play start; if that is \<^verbatim>\<open>None\<close>, no pre-ladder field is set; otherwise
  \<^verbatim>\<open>pre0ladder\<close>, \<^verbatim>\<open>pre5ladder\<close> and \<^verbatim>\<open>pre10ladder\<close> are the runners of the first snapshot
  so far (the earliest, for packets in time order) whose \<^verbatim>\<open>inPlayStartTime - pt\<close> is
  less than 1000, 300000 and 600000 milliseconds, and absent when there is no such
  snapshot; a field that is set keeps its value on all later packets.
\<close>

theorem pre_ladders_earliest_in_window:
  assumes "LadderBuilder_init strptime marketdata market_definition = Inr lb0"
    and "run_loop strptime lb0 ps = Inr lb"
  shows "inPlayStartTime (mb_metadata (lb_metadata_builder lb)) = Some (lb_in_play_start lb0) \<and>
     (lb_in_play_start lb0 = None \<longrightarrow>
        pre0ladder (mb_metadata (lb_metadata_builder lb)) = None \<and>
        pre5ladder (mb_metadata (lb_metadata_builder lb)) = None \<and>
        pre10ladder (mb_metadata (lb_metadata_builder lb)) = None) \<and>
     (\<forall>t. lb_in_play_start lb0 = Some t \<longrightarrow>
        pre0ladder (mb_metadata (lb_metadata_builder lb)) =
          map_option doc_runners (find (\<lambda>d. t - doc_pt d < 1000) (lb_ladders lb)) \<and>
        pre5ladder (mb_metadata (lb_metadata_builder lb)) =
          map_option doc_runners (find (\<lambda>d. t - doc_pt d < 300000) (lb_ladders lb)) \<and>
        pre10ladder (mb_metadata (lb_metadata_builder lb)) =
          map_option doc_runners (find (\<lambda>d. t - doc_pt d < 600000) (lb_ladders lb))) \<and>
     (\<forall>more lb' x. run_loop strptime lb more = Inr lb' \<longrightarrow>
        (pre0ladder (mb_metadata (lb_metadata_builder lb)) = Some x \<longrightarrow>
           pre0ladder (mb_metadata (lb_metadata_builder lb')) = Some x) \<and>
        (pre5ladder (mb_metadata (lb_metadata_builder lb)) = Some x \<longrightarrow>
           pre5ladder (mb_metadata (lb_metadata_builder lb')) = Some x) \<and>
        (pre10ladder (mb_metadata (lb_metadata_builder lb)) = Some x \<longrightarrow>
           pre10ladder (mb_metadata (lb_metadata_builder lb')) = Some x))"
proof -
  note here = reachable_captured[OF assms]
  have start: "inPlayStartTime (mb_metadata (lb_metadata_builder lb)) = Some (lb_in_play_start lb0)"
    using here(1,2) by (simp add: pre_ladders_captured_def)
  have never: "pre0ladder (mb_metadata (lb_metadata_builder lb)) = None \<and>
        pre5ladder (mb_metadata (lb_metadata_builder lb)) = None \<and>
        pre10ladder (mb_metadata (lb_metadata_builder lb)) = None" if "lb_in_play_start lb0 = None"
    using here(1,2) that by (simp add: pre_ladders_captured_def)
  have found: "pre0ladder (mb_metadata (lb_metadata_builder lb)) =
          map_option doc_runners (find (\<lambda>d. t - doc_pt d < 1000) (lb_ladders lb)) \<and>
        pre5ladder (mb_metadata (lb_metadata_builder lb)) =
          map_option doc_runners (find (\<lambda>d. t - doc_pt d < 300000) (lb_ladders lb)) \<and>
        pre10ladder (mb_metadata (lb_metadata_builder lb)) =
          map_option doc_runners (find (\<lambda>d. t - doc_pt d < 600000) (lb_ladders lb))"
    if "lb_in_play_start lb0 = Some t" for t
    using here(1,2) that by (simp add: pre_ladders_captured_def)
  have kept: "(pre0ladder (mb_metadata (lb_metadata_builder lb)) = Some x \<longrightarrow>
           pre0ladder (mb_metadata (lb_metadata_builder lb')) = Some x) \<and>
        (pre5ladder (mb_metadata (lb_metadata_builder lb)) = Some x \<longrightarrow>
           pre5ladder (mb_metadata (lb_metadata_builder lb')) = Some x) \<and>
        (pre10ladder (mb_metadata (lb_metadata_builder lb)) = Some x \<longrightarrow>
           pre10ladder (mb_metadata (lb_metadata_builder lb')) = Some x)"
    if later: "run_loop strptime lb more = Inr lb'" for more lb' x
  proof -
    from run_loop_captured[OF later here(3,1)] obtain docs where
      there: "pre_ladders_captured (lb_metadata_builder lb') (lb_ladders lb')"
      and same: "mb_in_play_start (lb_metadata_builder lb') = mb_in_play_start (lb_metadata_builder lb)"
      and docs: "lb_ladders lb' = lb_ladders lb @ docs"
      by blast
    show ?thesis
    proof (cases "lb_in_play_start lb0")
      case None
      then show ?thesis
        using never by simp
    next
      case (Some t)
      have "find P (lb_ladders lb') = Some y" if "find P (lb_ladders lb) = Some y" for P y
        using that by (simp add: docs find_append_Some)
      then show ?thesis
        using here(1,2) there same Some
        by (auto simp: pre_ladders_captured_def)
    qed
  qed
  from start never found kept show ?thesis
    by blast
qed

theorem pre_ladders_earliest_in_window_witness:
  "LadderBuilder_init example_strptime [example_first_packet, example_packet, example_last_packet]
     example_definition = Inr example_builder \<and>
   lb_in_play_start example_builder = Some 1000000 \<and>
   (\<exists>lb d0 d1 d2.
      run_loop example_strptime example_builder
        [example_first_packet, example_packet, example_last_packet] = Inr lb \<and>
      lb_ladders lb = [d0, d1, d2] \<and>
      doc_pt d0 = 500001 \<and> doc_pt d1 = 700001 \<and> doc_pt d2 = 1000000 \<and>
      pre10ladder (mb_metadata (lb_metadata_builder lb)) = Some (doc_runners d0) \<and>
      pre5ladder (mb_metadata (lb_metadata_builder lb)) = Some (doc_runners d1) \<and>
      pre0ladder (mb_metadata (lb_metadata_builder lb)) = Some (doc_runners d2))"
proof -
  note init = example_init
  have start: "lb_in_play_start example_builder = Some 1000000"
    by (simp add: example_builder_def)
  obtain lb where run: "run_loop example_strptime example_builder
        [example_first_packet, example_packet, example_last_packet] = Inr lb"
    and pts: "map doc_pt (lb_ladders lb) = [500001, 700001, 1000000]"
    using example_run_times
    by (cases "run_loop example_strptime example_builder
        [example_first_packet, example_packet, example_last_packet]") auto
  from pts obtain d0 d1 d2 where docs: "lb_ladders lb = [d0, d1, d2]"
    and t: "doc_pt d0 = 500001" "doc_pt d1 = 700001" "doc_pt d2 = 1000000"
    by (auto simp: map_eq_Cons_conv)
  from pre_ladders_earliest_in_window[OF init run] start
  have "pre0ladder (mb_metadata (lb_metadata_builder lb)) =
          map_option doc_runners (find (\<lambda>d. 1000000 - doc_pt d < 1000) (lb_ladders lb)) \<and>
        pre5ladder (mb_metadata (lb_metadata_builder lb)) =
          map_option doc_runners (find (\<lambda>d. 1000000 - doc_pt d < 300000) (lb_ladders lb)) \<and>
        pre10ladder (mb_metadata (lb_metadata_builder lb)) =
          map_option doc_runners (find (\<lambda>d. 1000000 - doc_pt d < 600000) (lb_ladders lb))"
    by blast
  then have "pre10ladder (mb_metadata (lb_metadata_builder lb)) = Some (doc_runners d0) \<and>
      pre5ladder (mb_metadata (lb_metadata_builder lb)) = Some (doc_runners d1) \<and>
      pre0ladder (mb_metadata (lb_metadata_builder lb)) = Some (doc_runners d2)"
    by (simp add: docs t)
  with init start run docs t show ?thesis
    by blast
qed



text \<open>
  C9. For each of the scalar fields \<^verbatim>\<open>ltp\<close> and \<^verbatim>\<open>tv\<close>: a runner change that carries a
  truthy value overwrites the stored value; a runner change without the field, or with a
  falsy value such as 0, leaves the stored value as it is. So a stored value is 0 after
  the change only if it was 0 before it.
\<close>

theorem scalar_update_truthy:
  "(rc_ltp c = Some v \<and> v \<noteq> 0 \<longrightarrow> ltp (update_runner rl c) = Some v) \<and>
   (rc_ltp c = None \<or> rc_ltp c = Some 0 \<longrightarrow> ltp (update_runner rl c) = ltp rl) \<and>
   (rc_tv c = Some v \<and> v \<noteq> 0 \<longrightarrow> tv (update_runner rl c) = Some v) \<and>
   (rc_tv c = None \<or> rc_tv c = Some 0 \<longrightarrow> tv (update_runner rl c) = tv rl) \<and>
   (ltp (update_runner rl c) = Some 0 \<longrightarrow> ltp rl = Some 0) \<and>
   (tv (update_runner rl c) = Some 0 \<longrightarrow> tv rl = Some 0) \<and>
   ltp (update_runner rl c) = update_runner_value rl c Ltp_key \<and>
   tv (update_runner rl c) = update_runner_value rl c Tv_key"
  by (auto simp: update_runner_fields update_runner_value_def Let_def split: option.splits if_splits)

theorem scalar_update_truthy_witness:
  "rc_ltp example_change = Some (5 / 2) \<and> (5 / 2 :: rat) \<noteq> 0 \<and>
   ltp (update_runner example_runner example_change) = Some (5 / 2) \<and>
   rc_tv example_change = Some 0 \<and>
   tv (update_runner example_runner example_change) = Some 7"
proof -
  have h: "rc_ltp example_change = Some (5 / 2)" "(5 / 2 :: rat) \<noteq> 0"
    "rc_tv example_change = Some 0" "tv example_runner = Some 7"
    by (simp_all add: example_change_def example_runner_def)
  with scalar_update_truthy[of example_change "5 / 2" example_runner] show ?thesis
    by simp
qed

text \<open>
  C10. If the construction of the builder succeeds, the last packet's \<^verbatim>\<open>mc[0]\<close> has an
  \<^verbatim>\<open>id\<close> and a market definition with an \<^verbatim>\<open>eventId\<close> and the three dates accepted by
  \<^verbatim>\<open>strptime\<close> with the format \<^verbatim>\<open>%Y-%m-%dT%H:%M:%S.%fZ\<close>, and the metadata has
  \<^verbatim>\<open>marketId\<close>, \<^verbatim>\<open>eventId\<close>, the parsed dates and
  \<^verbatim>\<open>_id = "metadata_<marketId>_<eventId>"\<close>. \<^verbatim>\<open>format_metadata\<close> succeeds exactly on such
  a market change and raises \<^verbatim>\<open>KeyError\<close> or \<^verbatim>\<open>ValueError\<close> on any other one, and then
  the construction raises.
\<close>

theorem construction_needs_metadata_base:
  "(LadderBuilder_init strptime marketdata market_definition = Inr lb \<longrightarrow>
      marketdata \<noteq> [] \<and>
      (\<exists>mc md open_string market_string suspend_string open_date market_time suspend_time.
         p_mc (last marketdata) = Some [mc] \<and>
         mc_id mc = Some (lb_market_id lb) \<and>
         mc_marketDefinition mc = Some md \<and>
         md_eventId md = Some (lb_event_id lb) \<and>
         md_openDate md = Some open_string \<and> strptime open_string date_format = Some open_date \<and>
         md_marketTime md = Some market_string \<and> strptime market_string date_format = Some market_time \<and>
         md_suspendTime md = Some suspend_string \<and> strptime suspend_string date_format = Some suspend_time \<and>
         marketId (mb_metadata (lb_metadata_builder lb)) = lb_market_id lb \<and>
         eventId (mb_metadata (lb_metadata_builder lb)) = lb_event_id lb \<and>
         meta_id (mb_metadata (lb_metadata_builder lb)) =
           ''metadata_'' @ lb_market_id lb @ ''_'' @ lb_event_id lb \<and>
         md_openDate (marketDefinition (mb_metadata (lb_metadata_builder lb))) = Some open_date \<and>
         md_marketTime (marketDefinition (mb_metadata (lb_metadata_builder lb))) = Some market_time \<and>
         md_suspendTime (marketDefinition (mb_metadata (lb_metadata_builder lb))) = Some suspend_time)) \<and>
   ((\<exists>res. format_metadata strptime mc0 = Inr res) \<longleftrightarrow> metadata_source_ok strptime mc0) \<and>
   (\<not> metadata_source_ok strptime mc0 \<longrightarrow>
      format_metadata strptime mc0 = Inl KeyError \<or> format_metadata strptime mc0 = Inl ValueError) \<and>
   (p_mc (last marketdata) = Some [mc0] \<and> \<not> metadata_source_ok strptime mc0 \<longrightarrow>
      (\<exists>e. LadderBuilder_init strptime marketdata market_definition = Inl e))"
proof -
  have built: "marketdata \<noteq> [] \<and>
      (\<exists>mc md open_string market_string suspend_string open_date market_time suspend_time.
         p_mc (last marketdata) = Some [mc] \<and>
         mc_id mc = Some (lb_market_id lb) \<and>
         mc_marketDefinition mc = Some md \<and>
         md_eventId md = Some (lb_event_id lb) \<and>
         md_openDate md = Some open_string \<and> strptime open_string date_format = Some open_date \<and>
         md_marketTime md = Some market_string \<and> strptime market_string date_format = Some market_time \<and>
         md_suspendTime md = Some suspend_string \<and> strptime suspend_string date_format = Some suspend_time \<and>
         marketId (mb_metadata (lb_metadata_builder lb)) = lb_market_id lb \<and>
         eventId (mb_metadata (lb_metadata_builder lb)) = lb_event_id lb \<and>
         meta_id (mb_metadata (lb_metadata_builder lb)) =
           ''metadata_'' @ lb_market_id lb @ ''_'' @ lb_event_id lb \<and>
         md_openDate (marketDefinition (mb_metadata (lb_metadata_builder lb))) = Some open_date \<and>
         md_marketTime (marketDefinition (mb_metadata (lb_metadata_builder lb))) = Some market_time \<and>
         md_suspendTime (marketDefinition (mb_metadata (lb_metadata_builder lb))) = Some suspend_time)"
    if init: "LadderBuilder_init strptime marketdata market_definition = Inr lb"
  proof -
    from init obtain mc meta where ne: "marketdata \<noteq> []" and last: "p_mc (last marketdata) = Some [mc]"
      and fm: "format_metadata strptime mc = Inr (meta, lb_market_id lb, lb_event_id lb)"
      and m: "mb_metadata (lb_metadata_builder lb) =
         meta\<lparr>inPlayStartTime := Some (lb_in_play_start lb), inPlayEndTime := Some (lb_in_play_end lb)\<rparr>"
      by (rule LadderBuilder_init_Inr)
    from fm obtain md open_date market_time suspend_time where
      f: "mc_id mc = Some (lb_market_id lb)" "mc_marketDefinition mc = Some md"
        "md_eventId md = Some (lb_event_id lb)"
      and p: "parse_date strptime (md_openDate md) = Inr open_date"
        "parse_date strptime (md_marketTime md) = Inr market_time"
        "parse_date strptime (md_suspendTime md) = Inr suspend_time"
      and r: "marketId meta = lb_market_id lb" "eventId meta = lb_event_id lb"
        "meta_id meta = ''metadata_'' @ lb_market_id lb @ ''_'' @ lb_event_id lb"
        "md_openDate (marketDefinition meta) = Some open_date"
        "md_marketTime (marketDefinition meta) = Some market_time"
        "md_suspendTime (marketDefinition meta) = Some suspend_time"
      by (rule format_metadata_Inr)
    from p obtain open_string market_string suspend_string where
      s: "md_openDate md = Some open_string" "strptime open_string date_format = Some open_date"
        "md_marketTime md = Some market_string" "strptime market_string date_format = Some market_time"
        "md_suspendTime md = Some suspend_string" "strptime suspend_string date_format = Some suspend_time"
      unfolding parse_date_Inr by blast
    have r': "marketId (mb_metadata (lb_metadata_builder lb)) = lb_market_id lb"
      "eventId (mb_metadata (lb_metadata_builder lb)) = lb_event_id lb"
      "meta_id (mb_metadata (lb_metadata_builder lb)) =
           ''metadata_'' @ lb_market_id lb @ ''_'' @ lb_event_id lb"
      "md_openDate (marketDefinition (mb_metadata (lb_metadata_builder lb))) = Some open_date"
      "md_marketTime (marketDefinition (mb_metadata (lb_metadata_builder lb))) = Some market_time"
      "md_suspendTime (marketDefinition (mb_metadata (lb_metadata_builder lb))) = Some suspend_time"
      using r by (simp_all add: m)
    from ne last f s r' show ?thesis
      by blast
  qed
  have base: "(\<exists>res. format_metadata strptime mc0 = Inr res) \<longleftrightarrow> metadata_source_ok strptime mc0"
    by (rule format_metadata_ok)
  have fails: "format_metadata strptime mc0 = Inl KeyError \<or> format_metadata strptime mc0 = Inl ValueError"
    if "\<not> metadata_source_ok strptime mc0"
    using that base format_metadata_error[of strptime mc0]
    by (cases "format_metadata strptime mc0") auto
  have raises: "\<exists>e. LadderBuilder_init strptime marketdata market_definition = Inl e"
    if last0: "p_mc (last marketdata) = Some [mc0]" and bad: "\<not> metadata_source_ok strptime mc0"
  proof (cases "LadderBuilder_init strptime marketdata market_definition")
    case (Inl e)
    then show ?thesis by blast
  next
    case (Inr lb1)
    then obtain mc meta where "p_mc (last marketdata) = Some [mc]"
      and "format_metadata strptime mc = Inr (meta, lb_market_id lb1, lb_event_id lb1)"
      by (rule LadderBuilder_init_Inr)
    then have "metadata_source_ok strptime mc0"
      using last0 format_metadata_ok[of strptime mc0] by auto
    then show ?thesis
      using bad by simp
  qed
  from built base fails raises show ?thesis
    by blast
qed

theorem construction_needs_metadata_base_witness:
  "LadderBuilder_init example_strptime [example_first_packet, example_packet, example_last_packet]
     example_definition = Inr example_builder \<and>
   marketId (mb_metadata (lb_metadata_builder example_builder)) = ''1.1'' \<and>
   eventId (mb_metadata (lb_metadata_builder example_builder)) = ''77'' \<and>
   meta_id (mb_metadata (lb_metadata_builder example_builder)) = ''metadata_1.1_77'' \<and>
   md_openDate (marketDefinition (mb_metadata (lb_metadata_builder example_builder))) =
     Some (Datetime 2023 1 3 12 0 0 0)"
proof -
  note init = example_init
  have ids: "lb_market_id example_builder = ''1.1''" "lb_event_id example_builder = ''77''"
    by (simp_all add: example_builder_def)
  from construction_needs_metadata_base[of example_strptime
      "[example_first_packet, example_packet, example_last_packet]" example_definition example_builder] init
  have "marketId (mb_metadata (lb_metadata_builder example_builder)) = lb_market_id example_builder \<and>
        eventId (mb_metadata (lb_metadata_builder example_builder)) = lb_event_id example_builder \<and>
        meta_id (mb_metadata (lb_metadata_builder example_builder)) =
           ''metadata_'' @ lb_market_id example_builder @ ''_'' @ lb_event_id example_builder"
    by blast
  moreover have "md_openDate (marketDefinition (mb_metadata (lb_metadata_builder example_builder))) =
     Some (Datetime 2023 1 3 12 0 0 0)"
    by (simp add: example_builder_def)
  ultimately show ?thesis
    using init by (simp add: ids)
qed

end
